theory Spec2Isabelle
  imports Complex_Main "HOL-Library.AList"
begin

section \<open>Thrown values and string search\<close>

text \<open>
  The service module \<open>aiService.ts\<close> catches values of type \<open>any\<close> and reads three
  things from them: \<open>error?.status\<close>, \<open>error?.response?.status\<close> and
  \<open>error?.message\<close>. A thrown value is therefore modelled as either \<open>undefined\<close>
  (the initial content of \<open>lastError\<close>) or an object carrying these three optional
  fields. A status is a number, a message is a string; \<open>None\<close> is an absent field.
  A JavaScript string is read as its sequence of code units, one \<open>char\<close> each.
\<close>

record js_error =
  status :: "int option"
  response_status :: "int option"
  message :: "string option"

datatype thrown = Undefined | Thrown js_error

text \<open>\<open>new Error(msg)\<close>: an object with a message and no status.\<close>

definition Error :: "string \<Rightarrow> thrown" where
  "Error msg = Thrown \<lparr>status = None, response_status = None, message = Some msg\<rparr>"

fun startsWith :: "string \<Rightarrow> string \<Rightarrow> bool" where
  "startsWith s [] = True"
| "startsWith [] (p # ps) = False"
| "startsWith (c # cs) (p # ps) = (c = p \<and> startsWith cs ps)"

text \<open>\<open>String.prototype.includes\<close>: the needle occurs at some position.\<close>

fun str_includes :: "string \<Rightarrow> string \<Rightarrow> bool" where
  "str_includes [] needle = (needle = [])"
| "str_includes (c # cs) needle = (startsWith (c # cs) needle \<or> str_includes cs needle)"

text \<open>\<open>error?.status\<close>\<close>

fun own_status :: "thrown \<Rightarrow> int option" where
  "own_status Undefined = None"
| "own_status (Thrown e) = status e"

text \<open>
  \<open>error?.status || error?.response?.status\<close>: the left operand is taken when it is
  truthy, that is a number other than 0.
\<close>

fun carried_status :: "thrown \<Rightarrow> int option" where
  "carried_status Undefined = None"
| "carried_status (Thrown e) =
     (case status e of
        Some n \<Rightarrow> if n \<noteq> 0 then Some n else response_status e
      | None \<Rightarrow> response_status e)"

text \<open>\<open>error?.message?.includes(needle)\<close>, read as a condition.\<close>

fun message_includes :: "thrown \<Rightarrow> string \<Rightarrow> bool" where
  "message_includes Undefined needle = False"
| "message_includes (Thrown e) needle =
     (case message e of Some m \<Rightarrow> str_includes m needle | None \<Rightarrow> False)"

section \<open>The retry wrapper\<close>

text \<open>
  The condition of line 49 of \<open>withRetry\<close>:
  \<open>status === 429 || status === 503 || error?.message?.includes('quota') ||
  error?.message?.includes('fetch')\<close>.
\<close>

definition retryable :: "thrown \<Rightarrow> bool" where
  "retryable error \<longleftrightarrow>
     carried_status error = Some 429 \<or> carried_status error = Some 503 \<or>
     message_includes error ''quota'' \<or> message_includes error ''fetch''"

text \<open>
  The two effects of \<open>withRetry\<close> that a caller can observe besides its result: a call
  of the wrapped operation, and a timer awaited with a given delay. They are collected,
  in order, in a trace. The \<open>console.warn\<close> line is not modelled.
\<close>

datatype retry_event = Invoked | Delayed int

text \<open>
  The wrapped operation \<open>fn\<close> is a state transformer over the outside world \<open>'s\<close>: it
  either rejects with a thrown value (\<open>Inl\<close>) or resolves with a result (\<open>Inr\<close>).
  \<open>withRetry_loop\<close> is the \<open>for\<close> loop of \<open>withRetry\<close> entered with counter \<open>i\<close>
  and the current \<open>lastError\<close>. \<open>maxRetries\<close> and \<open>initialDelay\<close> are integers;
  \<open>Math.pow(2, i)\<close> is the exact power, without the rounding or overflow of a
  double.
\<close>

function withRetry_loop ::
  "('s \<Rightarrow> (thrown + 'a) \<times> 's) \<Rightarrow> int \<Rightarrow> int \<Rightarrow> nat \<Rightarrow> thrown \<Rightarrow> 's
     \<Rightarrow> (thrown + 'a) \<times> 's \<times> retry_event list" where
  "withRetry_loop fn maxRetries initialDelay i lastError s =
     (if int i < maxRetries then
        (case fn s of
           (Inr v, s') \<Rightarrow> (Inr v, s', [Invoked])
         | (Inl error, s') \<Rightarrow>
             if retryable error then
               (case withRetry_loop fn maxRetries initialDelay (i + 1) error s' of
                  (res, s'', tr) \<Rightarrow>
                    (res, s'', Invoked # Delayed (initialDelay * 2 ^ i) # tr))
             else (Inl error, s', [Invoked]))
      else (Inl lastError, s, []))"
  by pat_completeness auto
termination
  by (relation "measure (\<lambda>(fn, maxRetries, initialDelay, i, lastError, s). nat (maxRetries - int i))")
     auto

declare withRetry_loop.simps [simp del]

text \<open>The defaults of the parameter list: \<open>maxRetries = 3, initialDelay = 1000\<close>.\<close>

definition default_maxRetries :: int where
  "default_maxRetries = 3"

definition default_initialDelay :: int where
  "default_initialDelay = 1000"

definition withRetry ::
  "('s \<Rightarrow> (thrown + 'a) \<times> 's) \<Rightarrow> int \<Rightarrow> int \<Rightarrow> 's
     \<Rightarrow> (thrown + 'a) \<times> 's \<times> retry_event list" where
  "withRetry fn maxRetries initialDelay s =
     withRetry_loop fn maxRetries initialDelay 0 Undefined s"

section \<open>Configuration and request data\<close>

text \<open>
  \<open>getApiKey\<close> reads \<open>import.meta.env?.VITE_GEMINI_API_KEY\<close>, then
  \<open>process?.env?.VITE_GEMINI_API_KEY\<close>, then falls back to the empty string; \<open>||\<close>
  skips an absent and an empty value alike.
\<close>

record config =
  meta_env_key :: "string option"
  process_env_key :: "string option"

text \<open>\<open>a || b\<close> on an optional string \<open>a\<close>.\<close>

fun or_string :: "string option \<Rightarrow> string \<Rightarrow> string" where
  "or_string None b = b"
| "or_string (Some a) b = (if a \<noteq> [] then a else b)"

definition getApiKey :: "config \<Rightarrow> string" where
  "getApiKey cfg = or_string (meta_env_key cfg) (or_string (process_env_key cfg) [])"

datatype role = user | model

record inline_data =
  data :: string
  mimeType :: string

record FileData =
  inlineData :: inline_data
  name :: "string option"

record ChatMessage =
  role :: role
  content :: string
  files :: "FileData list option"

text \<open>
  An element of a parts array: a plain string, a \<open>{ text: ... }\<close> object or an
  \<open>{ inlineData: ... }\<close> object.
\<close>

datatype part = PString string | PText string | PInline inline_data

text \<open>An entry of the history given to \<open>startChat\<close>: \<open>{ role, parts }\<close>.\<close>

record turn =
  turn_role :: role
  turn_parts :: "part list"

text \<open>
  The text of \<open>SYSTEM_PROMPT\<close> is a fixed constant that no behaviour modelled here
  inspects; it is kept as an opaque value.
\<close>

datatype system_instruction = SYSTEM_PROMPT

text \<open>
  What one network call hands to the client library: the key the client was built with
  (\<open>getGenAI\<close>), the model name, and either the chat set up by \<open>startChat\<close> together
  with the parts given to \<open>chat.sendMessage\<close>, or the parts given to
  \<open>model.generateContent\<close>.
\<close>

datatype request =
  ChatSend string string system_instruction "turn list" "part list"
| Generate string string "part list"

fun req_key :: "request \<Rightarrow> string" where
  "req_key (ChatSend k m si h ps) = k"
| "req_key (Generate k m ps) = k"

fun req_model :: "request \<Rightarrow> string" where
  "req_model (ChatSend k m si h ps) = m"
| "req_model (Generate k m ps) = m"

fun req_history :: "request \<Rightarrow> turn list" where
  "req_history (ChatSend k m si h ps) = h"
| "req_history (Generate k m ps) = []"

text \<open>
  The client library \<open>@google/generative-ai\<close> and the service behind it are a
  parameter. Every step the source takes through the library can throw:
  \<^item> \<open>new_client key\<close> is \<open>new GoogleGenerativeAI(key)\<close>,
  \<^item> \<open>getGenerativeModel key modelName systemInstruction\<close> builds the model object,
  \<^item> \<open>startChat key modelName history\<close> builds the chat,
  each giving \<open>Some e\<close> when it throws \<open>e\<close> and \<open>None\<close> when it returns;
  \<^item> \<open>send request\<close> is the network call (\<open>chat.sendMessage\<close> or
    \<open>model.generateContent\<close>): in a given state of the world it rejects with a
    thrown value or resolves with a result, and leaves a new state.
  A result is represented by what reading its text does:
  \<open>(await result.response).text()\<close> throws (\<open>Inl\<close>) or yields a string (\<open>Inr\<close>).
\<close>

type_synonym result = "thrown + string"

type_synonym 's service = "request \<Rightarrow> 's \<Rightarrow> (thrown + result) \<times> 's"

record 's library =
  new_client :: "string \<Rightarrow> thrown option"
  getGenerativeModel :: "string \<Rightarrow> string \<Rightarrow> system_instruction option \<Rightarrow> thrown option"
  startChat :: "string \<Rightarrow> string \<Rightarrow> turn list \<Rightarrow> thrown option"
  send :: "'s service"

text \<open>The trace of an operation: every event of every wrapped call, with its request.\<close>

type_synonym trace = "(request \<times> retry_event) list"

definition MODELS :: "string list" where
  "MODELS = [''gemini-flash-latest'', ''gemini-2.0-flash'',
             ''gemini-2.0-flash-lite-preview-09-2025'', ''gemini-1.5-pro'']"

section \<open>sendMessage\<close>

text \<open>\<open>history[0]?.role === 'model' ? history.slice(1) : history\<close>\<close>

definition apiHistory :: "ChatMessage list \<Rightarrow> ChatMessage list" where
  "apiHistory history =
     (case history of
        [] \<Rightarrow> history
      | m # ms \<Rightarrow> if role m = model then ms else history)"

text \<open>\<open>msg => ({ role: msg.role, parts: [{ text: msg.content }] })\<close>\<close>

definition to_turn :: "ChatMessage \<Rightarrow> turn" where
  "to_turn msg = \<lparr>turn_role = role msg, turn_parts = [PText (content msg)]\<rparr>"

definition promptParts :: "string \<Rightarrow> FileData list \<Rightarrow> part list" where
  "promptParts currentMessage fs = PString currentMessage # map (\<lambda>file. PInline (inlineData file)) fs"

definition chat_request :: "config \<Rightarrow> string \<Rightarrow> ChatMessage list \<Rightarrow> string \<Rightarrow> FileData list \<Rightarrow> request" where
  "chat_request cfg modelName history currentMessage fs =
     ChatSend (getApiKey cfg) modelName SYSTEM_PROMPT
       (map to_turn (apiHistory history)) (promptParts currentMessage fs)"

text \<open>
  The body of the \<open>try\<close> block of \<open>sendMessage\<close> for one candidate (lines 74 to 96):
  build the model object and the chat, make the wrapped call, read the text of the
  result. The first step that throws ends the attempt with that value (\<open>Inl\<close>);
  otherwise the attempt returns the text (\<open>Inr\<close>). The events of the wrapped call are
  recorded with the request.
\<close>

definition chat_attempt ::
  "'s library \<Rightarrow> config \<Rightarrow> ChatMessage list \<Rightarrow> string \<Rightarrow> FileData list \<Rightarrow> string \<Rightarrow> 's
     \<Rightarrow> (thrown + string) \<times> 's \<times> trace" where
  "chat_attempt lib cfg history currentMessage fs modelName s =
     (let req = chat_request cfg modelName history currentMessage fs in
      case getGenerativeModel lib (getApiKey cfg) modelName (Some SYSTEM_PROMPT) of
        Some e \<Rightarrow> (Inl e, s, [])
      | None \<Rightarrow>
          (case startChat lib (getApiKey cfg) modelName (map to_turn (apiHistory history)) of
             Some e \<Rightarrow> (Inl e, s, [])
           | None \<Rightarrow>
               (case withRetry (send lib req) default_maxRetries default_initialDelay s of
                  (Inl e, s', tr) \<Rightarrow> (Inl e, s', map (Pair req) tr)
                | (Inr result, s', tr) \<Rightarrow>
                    (case result of
                       Inl e \<Rightarrow> (Inl e, s', map (Pair req) tr)
                     | Inr text \<Rightarrow> (Inr text, s', map (Pair req) tr)))))"

text \<open>
  The \<open>for (const modelName of MODELS)\<close> loop of \<open>sendMessage\<close>, over the candidates
  still to try. \<open>Inr\<close> is the \<open>return\<close> inside the \<open>try\<close>; \<open>Inl lastError\<close> is the
  loop running off its end with that \<open>lastError\<close>. Whatever the attempt throws is
  caught; the \<open>catch\<close> block has three exits, each a \<open>continue\<close>.
\<close>

fun sendMessage_loop ::
  "'s library \<Rightarrow> config \<Rightarrow> ChatMessage list \<Rightarrow> string \<Rightarrow> FileData list
     \<Rightarrow> string list \<Rightarrow> thrown \<Rightarrow> 's \<Rightarrow> (thrown + string) \<times> 's \<times> trace" where
  "sendMessage_loop lib cfg history currentMessage fs [] lastError s = (Inl lastError, s, [])"
| "sendMessage_loop lib cfg history currentMessage fs (modelName # rest) lastError s =
     (case chat_attempt lib cfg history currentMessage fs modelName s of
        (Inr text, s', tr) \<Rightarrow> (Inr text, s', tr)
      | (Inl error, s', tr) \<Rightarrow>
          (case
             (if own_status error = Some 404 \<or> message_includes error ''404''
                   \<or> message_includes error ''not found''
              then sendMessage_loop lib cfg history currentMessage fs rest error s'
              else if own_status error = Some 429 \<or> message_includes error ''429''
                   \<or> message_includes error ''quota''
              then sendMessage_loop lib cfg history currentMessage fs rest error s'
              else sendMessage_loop lib cfg history currentMessage fs rest error s')
           of (res, s'', tr') \<Rightarrow> (res, s'', tr @ tr')))"

text \<open>\<open>lastError?.message || fallback\<close>\<close>

fun message_or :: "thrown \<Rightarrow> string \<Rightarrow> string" where
  "message_or Undefined fallback = fallback"
| "message_or (Thrown e) fallback = or_string (message e) fallback"

text \<open>The error thrown after the loop of \<open>sendMessage\<close> (lines 117 to 125).\<close>

definition sendMessage_failure :: "thrown \<Rightarrow> thrown" where
  "sendMessage_failure lastError =
     (if message_includes lastError ''quota'' then
        Error ''API Quota Exceeded across all available models. Please check your Google AI Studio billing or wait a few minutes.''
      else if own_status lastError = Some 404 \<or> message_includes lastError ''not found'' then
        Error ''Gemini models not found for this API key. Please verify your key in Google AI Studio.''
      else
        Error (''Failed to get AI response after trying multiple models. ''
                 @ message_or lastError ''Please check your connection.''))"

text \<open>
  \<open>sendMessage\<close>: the check of the key, then \<open>getGenAI()\<close>, which is outside the
  \<open>try\<close> (line 71) so that what it throws leaves \<open>sendMessage\<close> as it is, then the
  loop and the error after it.
\<close>

definition sendMessage ::
  "'s library \<Rightarrow> config \<Rightarrow> ChatMessage list \<Rightarrow> string \<Rightarrow> FileData list \<Rightarrow> 's
     \<Rightarrow> (thrown + string) \<times> 's \<times> trace" where
  "sendMessage lib cfg history currentMessage fs s =
     (if getApiKey cfg = [] then
        (Inl (Error ''Gemini API Key is missing. Please add VITE_GEMINI_API_KEY to your environment variables.''), s, [])
      else
        (case new_client lib (getApiKey cfg) of
           Some e \<Rightarrow> (Inl e, s, [])
         | None \<Rightarrow>
             (case sendMessage_loop lib cfg history currentMessage fs MODELS Undefined s of
                (Inr text, s', tr) \<Rightarrow> (Inr text, s', tr)
              | (Inl lastError, s', tr) \<Rightarrow> (Inl (sendMessage_failure lastError), s', tr))))"

section \<open>Reading a structured response\<close>

text \<open>
  \<open>.replace(/```json|```/g, "")\<close>: scanning from the left, every match of the
  alternation is deleted; at a position where both alternatives match, the first one
  (the longer fence) is taken.
\<close>

function replace_fences :: "string \<Rightarrow> string" where
  "replace_fences [] = []"
| "replace_fences (c # cs) =
     (if startsWith (c # cs) ''```json'' then replace_fences (drop 6 cs)
      else if startsWith (c # cs) ''```'' then replace_fences (drop 2 cs)
      else c # replace_fences cs)"
  by pat_completeness auto
termination
  by (relation "measure length") auto

text \<open>
  \<open>String.prototype.trim\<close> removes white space and line terminators from both ends.
  Among the code units below 256 these are tab, line feed, vertical tab, form feed,
  carriage return, space and the no-break space.
\<close>

definition is_js_space :: "char \<Rightarrow> bool" where
  "is_js_space c \<longleftrightarrow>
     c = CHR 0x09 \<or> c = CHR 0x0A \<or> c = CHR 0x0B \<or> c = CHR 0x0C \<or> c = CHR 0x0D
       \<or> c = CHR 0x20 \<or> c = CHR 0xA0"

definition trim :: "string \<Rightarrow> string" where
  "trim s = rev (dropWhile is_js_space (rev (dropWhile is_js_space s)))"

subsection \<open>JSON.parse\<close>

text \<open>
  The built-in \<open>JSON.parse\<close>, written out after the JSON grammar: one value between
  optional white space (space, tab, line feed, carriage return). A string value is the
  list of its code units, so that a \<open>\uXXXX\<close> escape can stand for any of them. A
  number is kept as the exact rational its literal denotes, not rounded to a double. An
  object is the list of its members in creation order; a repeated key overwrites the
  value stored earlier (that a real object lists its integer-like keys first is not
  modelled). \<open>None\<close> stands for the \<open>SyntaxError\<close> thrown on any other
  text. The comparisons of lengths in \<open>parse_elements\<close> and \<open>parse_members\<close> always
  hold (the rest of the text after a value is shorter than the text); they are there to
  make the termination of the recursion evident.
\<close>

datatype json =
  JNull | JBool bool | JNumber rat | JString "nat list"
| JArray "json list" | JObject "(nat list \<times> json) list"

definition is_json_ws :: "char \<Rightarrow> bool" where
  "is_json_ws c \<longleftrightarrow> c = CHR 0x20 \<or> c = CHR 0x09 \<or> c = CHR 0x0A \<or> c = CHR 0x0D"

definition skip_ws :: "string \<Rightarrow> string" where
  "skip_ws s = dropWhile is_json_ws s"

definition hex_val :: "char \<Rightarrow> nat option" where
  "hex_val c =
     (let n = (of_char c :: nat) in
      if 48 \<le> n \<and> n \<le> 57 then Some (n - 48)
      else if 97 \<le> n \<and> n \<le> 102 then Some (n - 87)
      else if 65 \<le> n \<and> n \<le> 70 then Some (n - 55)
      else None)"

definition escape_char :: "char \<Rightarrow> nat option" where
  \<open>escape_char e =
     (if e = CHR 0x22 then Some 0x22
      else if e = CHR 0x5C then Some 0x5C
      else if e = CHR ''/'' then Some 0x2F
      else if e = CHR ''b'' then Some 8
      else if e = CHR ''f'' then Some 12
      else if e = CHR ''n'' then Some 10
      else if e = CHR ''r'' then Some 13
      else if e = CHR ''t'' then Some 9
      else None)\<close>

fun parse_chars :: "string \<Rightarrow> (nat list \<times> string) option" where
  "parse_chars [] = None"
| "parse_chars (c # cs) =
     (if c = CHR 0x22 then Some ([], cs)
      else if c = CHR 0x5C then
        (case cs of
           [] \<Rightarrow> None
         | e # es \<Rightarrow>
             if e = CHR ''u'' then
               (case es of
                  h1 # h2 # h3 # h4 # rest \<Rightarrow>
                    (case (hex_val h1, hex_val h2, hex_val h3, hex_val h4) of
                       (Some a, Some b, Some c', Some d) \<Rightarrow>
                         (case parse_chars rest of
                            Some (xs, r) \<Rightarrow> Some ((((a * 16 + b) * 16 + c') * 16 + d) # xs, r)
                          | None \<Rightarrow> None)
                     | _ \<Rightarrow> None)
                | _ \<Rightarrow> None)
             else
               (case escape_char e of
                  Some n \<Rightarrow>
                    (case parse_chars es of
                       Some (xs, r) \<Rightarrow> Some (n # xs, r)
                     | None \<Rightarrow> None)
                | None \<Rightarrow> None))
      else if (of_char c :: nat) < 32 then None
      else
        (case parse_chars cs of
           Some (xs, r) \<Rightarrow> Some (of_char c # xs, r)
         | None \<Rightarrow> None))"

definition is_digit :: "char \<Rightarrow> bool" where
  "is_digit c \<longleftrightarrow> 48 \<le> (of_char c :: nat) \<and> (of_char c :: nat) \<le> 57"

definition digits_val :: "string \<Rightarrow> nat" where
  "digits_val ds = foldl (\<lambda>a c. a * 10 + (of_char c - 48)) 0 ds"

definition pow10 :: "int \<Rightarrow> rat" where
  "pow10 e = (if 0 \<le> e then 10 ^ nat e else 1 / 10 ^ nat (- e))"

definition parse_exponent :: "string \<Rightarrow> (int \<times> string) option" where
  "parse_exponent s =
     (case s of
        [] \<Rightarrow> Some (0, s)
      | c # cs \<Rightarrow>
          if c = CHR ''e'' \<or> c = CHR ''E'' then
            (let (neg, ds) =
               (case cs of
                  [] \<Rightarrow> (False, cs)
                | d # r \<Rightarrow> if d = CHR ''-'' then (True, r) else if d = CHR ''+'' then (False, r) else (False, cs))
             in if takeWhile is_digit ds = [] then None
                else Some ((if neg then - 1 else 1) * int (digits_val (takeWhile is_digit ds)),
                           dropWhile is_digit ds))
          else Some (0, s))"

definition parse_fraction :: "string \<Rightarrow> (rat \<times> string) option" where
  "parse_fraction s =
     (case s of
        [] \<Rightarrow> Some (0, s)
      | c # cs \<Rightarrow>
          if c = CHR ''.'' then
            (if takeWhile is_digit cs = [] then None
             else Some (of_nat (digits_val (takeWhile is_digit cs))
                          / 10 ^ length (takeWhile is_digit cs),
                        dropWhile is_digit cs))
          else Some (0, s))"

definition parse_integer :: "string \<Rightarrow> (nat \<times> string) option" where
  "parse_integer s =
     (case s of
        [] \<Rightarrow> None
      | c # cs \<Rightarrow>
          if c = CHR ''0'' then Some (0, cs)
          else if is_digit c then Some (digits_val (takeWhile is_digit s), dropWhile is_digit s)
          else None)"

definition parse_number :: "string \<Rightarrow> (rat \<times> string) option" where
  "parse_number s =
     (let (neg, s1) = (case s of [] \<Rightarrow> (False, s) | c # cs \<Rightarrow> if c = CHR ''-'' then (True, cs) else (False, s))
      in case parse_integer s1 of
           None \<Rightarrow> None
         | Some (ip, s2) \<Rightarrow>
             (case parse_fraction s2 of
                None \<Rightarrow> None
              | Some (fp, s3) \<Rightarrow>
                  (case parse_exponent s3 of
                     None \<Rightarrow> None
                   | Some (ex, s4) \<Rightarrow>
                       Some ((if neg then - 1 else 1) * (of_nat ip + fp) * pow10 ex, s4))))"

definition add_members :: "(nat list \<times> json) list \<Rightarrow> (nat list \<times> json) list" where
  "add_members ms = foldl (\<lambda>obj (k, v). AList.update k v obj) [] ms"

function parse_value :: "string \<Rightarrow> (json \<times> string) option"
  and parse_elements :: "string \<Rightarrow> (json list \<times> string) option"
  and parse_members :: "string \<Rightarrow> ((nat list \<times> json) list \<times> string) option" where
  "parse_value s =
     (case skip_ws s of
        [] \<Rightarrow> None
      | c # cs \<Rightarrow>
          if c = CHR ''['' then
            (case skip_ws cs of
               [] \<Rightarrow> None
             | d # ds \<Rightarrow>
                 if d = CHR '']'' then Some (JArray [], ds)
                 else (case parse_elements (d # ds) of
                         Some (vs, r) \<Rightarrow> Some (JArray vs, r)
                       | None \<Rightarrow> None))
          else if c = CHR ''{'' then
            (case skip_ws cs of
               [] \<Rightarrow> None
             | d # ds \<Rightarrow>
                 if d = CHR ''}'' then Some (JObject [], ds)
                 else (case parse_members (d # ds) of
                         Some (ms, r) \<Rightarrow> Some (JObject (add_members ms), r)
                       | None \<Rightarrow> None))
          else if c = CHR 0x22 then
            (case parse_chars cs of
               Some (xs, r) \<Rightarrow> Some (JString xs, r)
             | None \<Rightarrow> None)
          else if startsWith (c # cs) ''true'' then Some (JBool True, drop 4 (c # cs))
          else if startsWith (c # cs) ''false'' then Some (JBool False, drop 5 (c # cs))
          else if startsWith (c # cs) ''null'' then Some (JNull, drop 4 (c # cs))
          else (case parse_number (c # cs) of
                  Some (q, r) \<Rightarrow> Some (JNumber q, r)
                | None \<Rightarrow> None))"
| "parse_elements s =
     (case parse_value s of
        None \<Rightarrow> None
      | Some (v, r) \<Rightarrow>
          (case skip_ws r of
             [] \<Rightarrow> None
           | c # cs \<Rightarrow>
               if c = CHR '']'' then Some ([v], cs)
               else if c = CHR '','' \<and> length cs < length s then
                 (case parse_elements cs of
                    Some (vs, r') \<Rightarrow> Some (v # vs, r')
                  | None \<Rightarrow> None)
               else None))"
| "parse_members s =
     (case skip_ws s of
        [] \<Rightarrow> None
      | q # qs \<Rightarrow>
          if q = CHR 0x22 then
            (case parse_chars qs of
               None \<Rightarrow> None
             | Some (k, r) \<Rightarrow>
                 (case skip_ws r of
                    [] \<Rightarrow> None
                  | colon # r2 \<Rightarrow>
                      if colon = CHR '':'' \<and> length r2 < length s then
                        (case parse_value r2 of
                           None \<Rightarrow> None
                         | Some (v, r3) \<Rightarrow>
                             (case skip_ws r3 of
                                [] \<Rightarrow> None
                              | c # cs \<Rightarrow>
                                  if c = CHR ''}'' then Some ([(k, v)], cs)
                                  else if c = CHR '','' \<and> length cs < length s then
                                    (case parse_members cs of
                                       Some (ms, r') \<Rightarrow> Some ((k, v) # ms, r')
                                     | None \<Rightarrow> None)
                                  else None))
                      else None))
          else None)"
  by pat_completeness auto

termination
proof -
  have shorter: "length cs < length s" if "skip_ws s = c # cs" for s c cs
  proof -
    have "length (skip_ws s) \<le> length s"
      unfolding skip_ws_def by (rule length_dropWhile_le)
    with that show ?thesis by simp
  qed
  show ?thesis
    by (relation "measure (\<lambda>x. case x of
            Inl s \<Rightarrow> 2 * length s
          | Inr (Inl s) \<Rightarrow> 2 * length s + 1
          | Inr (Inr s) \<Rightarrow> 2 * length s + 1)")
       (auto dest!: shorter)
qed

definition JSON_parse :: "string \<Rightarrow> json option" where
  "JSON_parse text =
     (case parse_value text of
        Some (v, r) \<Rightarrow> if skip_ws r = [] then Some v else None
      | None \<Rightarrow> None)"

text \<open>
  The expression both generators return:
  \<open>JSON.parse(response.text().replace(/```json|```/g, "").trim())\<close>.
\<close>

definition parse_response :: "string \<Rightarrow> json option" where
  "parse_response text = JSON_parse (trim (replace_fences text))"

section \<open>generateQuiz and generateFlashcards\<close>

text \<open>
  The default values of the parameters (\<open>files = []\<close>, \<open>difficulty = 'medium'\<close>,
  \<open>count = 5\<close>) are left to the caller: every argument is given explicitly.

  \<open>${count}\<close> in a template: the decimal digits of the number, with a leading minus
  sign for a negative one. \<open>count\<close> is taken to be an integer (of a size below
  \<open>10^21\<close>, where JavaScript still prints all the digits).
\<close>

function digits_of :: "nat \<Rightarrow> string" where
  "digits_of n =
     (if n < 10 then [char_of (48 + n)]
      else digits_of (n div 10) @ [char_of (48 + n mod 10)])"
  by pat_completeness auto
termination
  by (relation "measure id") auto

definition number_to_string :: "int \<Rightarrow> string" where
  "number_to_string n = (if n < 0 then CHR ''-'' # digits_of (nat (- n)) else digits_of (nat n))"

definition quiz_prompt :: "string \<Rightarrow> FileData option \<Rightarrow> string \<Rightarrow> int \<Rightarrow> string" where
  \<open>quiz_prompt topic fileData difficulty count =
     ''Generate a '' @ number_to_string count @ ''-question multiple choice quiz about "''
       @ topic @ ''" with a difficulty level of "'' @ difficulty
       @ ''". \<newline>  Provide the output in JSON format: { "questions": [{ "question": "...", "options": ["...", "..."], "answer": "..." }] }\<newline>  ''
       @ (case fileData of Some f \<Rightarrow> ''Base the quiz on the provided file content.'' | None \<Rightarrow> [])\<close>

definition flashcards_prompt :: "string \<Rightarrow> FileData option \<Rightarrow> int \<Rightarrow> string" where
  \<open>flashcards_prompt topic fileData count =
     ''Generate '' @ number_to_string count @ '' flashcards about "'' @ topic
       @ ''". \<newline>  Provide the output in JSON format: { "flashcards": [{ "front": "...", "back": "..." }] }\<newline>  ''
       @ (case fileData of Some f \<Rightarrow> ''Base the flashcards on the provided file content.'' | None \<Rightarrow> [])\<close>

definition content_parts :: "string \<Rightarrow> FileData option \<Rightarrow> part list" where
  "content_parts prompt fileData =
     PString prompt # (case fileData of Some f \<Rightarrow> [PInline (inlineData f)] | None \<Rightarrow> [])"

text \<open>
  The body of the \<open>try\<close> block of \<open>generateQuiz\<close> and of
  \<open>generateFlashcards\<close> for one candidate (lines 137 to 147 and 171 to 181; the two
  differ in the logged text only): \<open>getGenAI()\<close>, the model object, the wrapped
  call, the text of the result, and \<open>JSON.parse\<close> of the cleaned text. The first step
  that throws ends the attempt with that value. What error object \<open>JSON.parse\<close>
  throws depends on the engine, so it is a parameter \<open>syntaxError\<close>, given the text
  that failed to parse.
\<close>

definition generate_attempt ::
  "'s library \<Rightarrow> config \<Rightarrow> (string \<Rightarrow> thrown) \<Rightarrow> part list \<Rightarrow> string \<Rightarrow> 's
     \<Rightarrow> (thrown + json) \<times> 's \<times> trace" where
  "generate_attempt lib cfg syntaxError ps modelName s =
     (let req = Generate (getApiKey cfg) modelName ps in
      case new_client lib (getApiKey cfg) of
        Some e \<Rightarrow> (Inl e, s, [])
      | None \<Rightarrow>
          (case getGenerativeModel lib (getApiKey cfg) modelName None of
             Some e \<Rightarrow> (Inl e, s, [])
           | None \<Rightarrow>
               (case withRetry (send lib req) default_maxRetries default_initialDelay s of
                  (Inl e, s', tr) \<Rightarrow> (Inl e, s', map (Pair req) tr)
                | (Inr result, s', tr) \<Rightarrow>
                    (case result of
                       Inl e \<Rightarrow> (Inl e, s', map (Pair req) tr)
                     | Inr text \<Rightarrow>
                         (case parse_response text of
                            Some v \<Rightarrow> (Inr v, s', map (Pair req) tr)
                          | None \<Rightarrow>
                              (Inl (syntaxError (trim (replace_fences text))), s',
                               map (Pair req) tr))))))"

text \<open>
  The loop over \<open>MODELS\<close> of the two generators. As in \<open>sendMessage_loop\<close>, \<open>Inr\<close>
  is the \<open>return\<close> and \<open>Inl lastError\<close> is the loop running off its end; both exits
  of the \<open>catch\<close> block are a \<open>continue\<close>.
\<close>

fun generate_loop ::
  "'s library \<Rightarrow> config \<Rightarrow> (string \<Rightarrow> thrown) \<Rightarrow> part list
     \<Rightarrow> string list \<Rightarrow> thrown \<Rightarrow> 's \<Rightarrow> (thrown + json) \<times> 's \<times> trace" where
  "generate_loop lib cfg syntaxError ps [] lastError s = (Inl lastError, s, [])"
| "generate_loop lib cfg syntaxError ps (modelName # rest) lastError s =
     (case generate_attempt lib cfg syntaxError ps modelName s of
        (Inr v, s', tr) \<Rightarrow> (Inr v, s', tr)
      | (Inl error, s', tr) \<Rightarrow>
          (case
             (if own_status error = Some 404 \<or> message_includes error ''404''
                   \<or> message_includes error ''not found'' \<or> own_status error = Some 429
                   \<or> message_includes error ''quota''
              then generate_loop lib cfg syntaxError ps rest error s'
              else generate_loop lib cfg syntaxError ps rest error s')
           of (res, s'', tr') \<Rightarrow> (res, s'', tr @ tr')))"

definition generateQuiz ::
  "'s library \<Rightarrow> config \<Rightarrow> (string \<Rightarrow> thrown) \<Rightarrow> string \<Rightarrow> FileData option \<Rightarrow> string \<Rightarrow> int
     \<Rightarrow> 's \<Rightarrow> (thrown + json) \<times> 's \<times> trace" where
  "generateQuiz lib cfg syntaxError topic fileData difficulty count s =
     (case generate_loop lib cfg syntaxError
             (content_parts (quiz_prompt topic fileData difficulty count) fileData)
             MODELS Undefined s of
        (Inr v, s', tr) \<Rightarrow> (Inr v, s', tr)
      | (Inl lastError, s', tr) \<Rightarrow>
          (Inl (Error (''Failed to generate quiz after trying multiple models. ''
                         @ message_or lastError [])), s', tr))"

definition generateFlashcards ::
  "'s library \<Rightarrow> config \<Rightarrow> (string \<Rightarrow> thrown) \<Rightarrow> string \<Rightarrow> FileData option \<Rightarrow> int
     \<Rightarrow> 's \<Rightarrow> (thrown + json) \<times> 's \<times> trace" where
  "generateFlashcards lib cfg syntaxError topic fileData count s =
     (case generate_loop lib cfg syntaxError
             (content_parts (flashcards_prompt topic fileData count) fileData)
             MODELS Undefined s of
        (Inr v, s', tr) \<Rightarrow> (Inr v, s', tr)
      | (Inl lastError, s', tr) \<Rightarrow>
          (Inl (Error (''Failed to generate flashcards after trying multiple models. ''
                         @ message_or lastError [])), s', tr))"

section \<open>Notions used in the statements\<close>

text \<open>
  \<open>run_state fn k s\<close> is the state of the world after \<open>k\<close> calls of \<open>fn\<close> in a row,
  started in \<open>s\<close>: the state in which call number \<open>k\<close> (counted from 0) begins.
\<close>

fun run_state :: "('s \<Rightarrow> 'r \<times> 's) \<Rightarrow> nat \<Rightarrow> 's \<Rightarrow> 's" where
  "run_state fn 0 s = s"
| "run_state fn (Suc k) s = run_state fn k (snd (fn s))"

text \<open>
  \<open>failed_run attempt names lastError s\<close>: the attempts for the candidates \<open>names\<close>,
  made one after the other from state \<open>s\<close>, all fail, whatever the failure. The
  result is the last failure observed (\<open>lastError\<close> itself when there is no candidate),
  the state reached and the events so far.
\<close>

fun failed_run ::
  "(string \<Rightarrow> 's \<Rightarrow> (thrown + 'a) \<times> 's \<times> trace) \<Rightarrow> string list \<Rightarrow> thrown \<Rightarrow> 's
     \<Rightarrow> (thrown \<times> 's \<times> trace) option" where
  "failed_run attempt [] lastError s = Some (lastError, s, [])"
| "failed_run attempt (modelName # rest) lastError s =
     (case attempt modelName s of
        (Inl e, s', tr) \<Rightarrow>
          (case failed_run attempt rest e s' of
             Some (e', s'', tr') \<Rightarrow> Some (e', s'', tr @ tr')
           | None \<Rightarrow> None)
      | (Inr v, s', tr) \<Rightarrow> None)"

text \<open>\<open>error?.message\<close>\<close>

fun thrown_message :: "thrown \<Rightarrow> string option" where
  "thrown_message Undefined = None"
| "thrown_message (Thrown e) = message e"

text \<open>The code units of a string, as \<open>JSON_parse\<close> stores a string value.\<close>

definition code_units :: "string \<Rightarrow> nat list" where
  "code_units s = map of_char s"

subsection \<open>Sample operations\<close>

text \<open>
  Operations over a world that counts the calls made so far: one that is always rate
  limited, and one that always rejects a malformed request.
\<close>

definition always_429 :: "nat \<Rightarrow> (thrown + string) \<times> nat" where
  "always_429 n =
     (Inl (Thrown \<lparr>status = Some 429, response_status = None, message = Some ''Too Many Requests''\<rparr>), Suc n)"

definition always_400 :: "nat \<Rightarrow> (thrown + string) \<times> nat" where
  "always_400 n =
     (Inl (Thrown \<lparr>status = Some 400, response_status = None, message = Some ''Bad Request''\<rparr>), Suc n)"

text \<open>
  Two configurations, and services over the same counting world: one that rejects every
  call with a given error object, one that resolves every call with a result of a given
  text, one on which only the second candidate model answers, one on which the result
  of the first candidate has a text that cannot be read, and one that is out of quota
  for its first \<open>k\<close> calls. \<open>library_of svc\<close> is a client library that never throws
  on its own and calls \<open>svc\<close>.
\<close>

definition with_key :: config where
  "with_key = \<lparr>meta_env_key = Some ''test-key'', process_env_key = None\<rparr>"

definition no_key :: config where
  "no_key = \<lparr>meta_env_key = None, process_env_key = None\<rparr>"

definition rejects_with :: "js_error \<Rightarrow> nat service" where
  "rejects_with e req n = (Inl (Thrown e), Suc n)"

definition replies_with :: "string \<Rightarrow> nat service" where
  "replies_with text req n = (Inr (Inr text), Suc n)"

definition library_of :: "nat service \<Rightarrow> nat library" where
  "library_of svc =
     \<lparr>new_client = (\<lambda>key. None), getGenerativeModel = (\<lambda>key modelName si. None),
      startChat = (\<lambda>key modelName history. None), send = svc\<rparr>"

definition internal_error :: js_error where
  "internal_error = \<lparr>status = Some 500, response_status = None, message = Some ''Internal error''\<rparr>"

definition second_model_replies :: "nat service" where
  "second_model_replies req n =
     (if req_model req = ''gemini-2.0-flash'' then replies_with ''Hello!'' req n
      else rejects_with internal_error req n)"

text \<open>
  A transcript as the chat view keeps it (it opens with the greeting of the model), error
  objects of the kinds the service answers with, and an engine whose \<open>SyntaxError\<close>
  always carries the same message.
\<close>

definition blocked_error :: js_error where
  "blocked_error =
     \<lparr>status = None, response_status = None,
      message = Some ''Response was blocked due to SAFETY''\<rparr>"

definition first_model_blocked :: "nat service" where
  "first_model_blocked req n =
     (if req_model req = ''gemini-flash-latest'' then (Inr (Inl (Thrown blocked_error)), Suc n)
      else replies_with ''Hello!'' req n)"

definition sample_history :: "ChatMessage list" where
  "sample_history =
     [\<lparr>role = model, content = ''Hi! Ask me a question to get started!'', files = None\<rparr>,
      \<lparr>role = user, content = ''What is osmosis?'', files = None\<rparr>,
      \<lparr>role = model, content = ''Osmosis is the movement of water across a membrane.'', files = None\<rparr>]"

definition invalid_key_error :: js_error where
  "invalid_key_error =
     \<lparr>status = Some 400, response_status = None,
      message = Some ''API key not valid. Please pass a valid API key.''\<rparr>"

definition quota_error :: js_error where
  "quota_error =
     \<lparr>status = Some 429, response_status = None,
      message = Some ''You exceeded your current quota''\<rparr>"

definition quota_until :: "nat \<Rightarrow> nat service" where
  "quota_until k req n =
     (if n < k then rejects_with quota_error req n else replies_with ''Hello!'' req n)"

definition not_found_error :: js_error where
  "not_found_error =
     \<lparr>status = Some 404, response_status = None,
      message = Some ''models/gemini-1.5-pro is not found for API version v1beta''\<rparr>"

definition code_404_error :: js_error where
  "code_404_error =
     \<lparr>status = None, response_status = None, message = Some ''Request failed with code 404''\<rparr>"

definition quota_not_found_error :: js_error where
  "quota_not_found_error =
     \<lparr>status = Some 404, response_status = None,
      message = Some ''quota project not found''\<rparr>"

definition sample_syntaxError :: "string \<Rightarrow> thrown" where
  "sample_syntaxError text = Error ''Unexpected end of JSON input''"

text \<open>
  Two well-formed responses in which a string value itself contains three backticks.
\<close>

definition quiz_with_fences :: string where
  \<open>quiz_with_fences =
     ''{"questions":[{"question":"Which characters open a code block?","options":["```","---"],"answer":"```"}]}''\<close>

definition cards_with_fences :: string where
  \<open>cards_with_fences = ''{"flashcards":[{"front":"```","back":"opens a code block"}]}''\<close>

section \<open>Properties of the retry wrapper\<close>

lemma withRetry_loop_exhausted:
  "\<not> int i < maxRetries \<Longrightarrow> withRetry_loop fn maxRetries d i le s = (Inl le, s, [])"
  by (subst withRetry_loop.simps) simp

lemma withRetry_loop_success:
  "int i < maxRetries \<Longrightarrow> fn s = (Inr v, s') \<Longrightarrow>
   withRetry_loop fn maxRetries d i le s = (Inr v, s', [Invoked])"
  by (subst withRetry_loop.simps) simp

lemma withRetry_loop_fatal:
  "int i < maxRetries \<Longrightarrow> fn s = (Inl e, s') \<Longrightarrow> \<not> retryable e \<Longrightarrow>
   withRetry_loop fn maxRetries d i le s = (Inl e, s', [Invoked])"
  by (subst withRetry_loop.simps) simp

lemma withRetry_loop_retry:
  "int i < maxRetries \<Longrightarrow> fn s = (Inl e, s') \<Longrightarrow> retryable e \<Longrightarrow>
   withRetry_loop fn maxRetries d i le s =
     (case withRetry_loop fn maxRetries d (Suc i) e s' of
        (res, s'', tr) \<Rightarrow> (res, s'', Invoked # Delayed (d * 2 ^ i) # tr))"
  by (subst withRetry_loop.simps) simp

lemma withRetry_loop_all_retryable:
  assumes "int i < maxRetries"
    and "\<forall>k<nat maxRetries - i. \<exists>e. fst (fn (run_state fn k s)) = Inl e \<and> retryable e"
  shows "withRetry_loop fn maxRetries d i le s =
           (fst (fn (run_state fn (nat maxRetries - i - 1) s)),
            run_state fn (nat maxRetries - i) s,
            concat (map (\<lambda>j. [Invoked, Delayed (d * 2 ^ j)]) [i..<nat maxRetries]))"
  using assms
proof (induction "nat maxRetries - i" arbitrary: i s le)
  case 0
  then show ?case by simp
next
  case (Suc n)
  from Suc.prems(2) Suc.hyps(2) obtain e where e: "fst (fn s) = Inl e" "retryable e"
    by (metis run_state.simps(1) zero_less_Suc)
  obtain s' where s': "fn s = (Inl e, s')"
    using e(1) by (cases "fn s") simp
  have step: "withRetry_loop fn maxRetries d i le s =
     (case withRetry_loop fn maxRetries d (Suc i) e s' of
        (res, s'', tr) \<Rightarrow> (res, s'', Invoked # Delayed (d * 2 ^ i) # tr))"
    using Suc.prems(1) s' e(2) by (rule withRetry_loop_retry)
  have upt: "[i..<nat maxRetries] = i # [Suc i..<nat maxRetries]"
    using Suc.prems(1) by (simp add: upt_conv_Cons)
  show ?case
  proof (cases "int (Suc i) < maxRetries")
    case True
    have n: "n = nat maxRetries - Suc i"
      using Suc.hyps(2) by simp
    have hyp: "\<forall>k<nat maxRetries - Suc i. \<exists>e. fst (fn (run_state fn k s')) = Inl e \<and> retryable e"
    proof (intro allI impI)
      fix k assume "k < nat maxRetries - Suc i"
      then have "Suc k < nat maxRetries - i" by simp
      with Suc.prems(2) have "\<exists>e. fst (fn (run_state fn (Suc k) s)) = Inl e \<and> retryable e"
        by blast
      then show "\<exists>e. fst (fn (run_state fn k s')) = Inl e \<and> retryable e"
        by (simp add: s')
    qed
    have ih: "withRetry_loop fn maxRetries d (Suc i) e s' =
           (fst (fn (run_state fn (nat maxRetries - Suc i - 1) s')),
            run_state fn (nat maxRetries - Suc i) s',
            concat (map (\<lambda>j. [Invoked, Delayed (d * 2 ^ j)]) [Suc i..<nat maxRetries]))"
      using Suc.hyps(1) [OF n True hyp] .
    obtain p where p: "nat maxRetries - Suc i = Suc p"
      using True by (cases "nat maxRetries - Suc i") simp_all
    have p1: "nat maxRetries - i - 1 = Suc p" and p2: "nat maxRetries - i = Suc (Suc p)"
      and p3: "nat maxRetries - Suc i - 1 = p"
      using p by simp_all
    show ?thesis
      unfolding step ih upt p p1 p2 p3 by (simp add: s')
  next
    case False
    then have last: "nat maxRetries = Suc i"
      using Suc.prems(1) by simp
    have "withRetry_loop fn maxRetries d (Suc i) e s' = (Inl e, s', [])"
      using False by (rule withRetry_loop_exhausted)
    then show ?thesis
      unfolding step by (simp add: last s')
  qed
qed

text \<open>
  C9: called with \<open>maxRetries\<close> equal to 0, or negative, \<open>withRetry\<close> never calls the
  wrapped operation and rejects with \<open>undefined\<close>, the value \<open>lastError\<close> was never
  assigned; the world is left as it was and nothing is awaited.
\<close>

theorem withRetry_zero_retries:
  "maxRetries \<le> 0 \<Longrightarrow> withRetry fn maxRetries initialDelay s = (Inl Undefined, s, [])"
  unfolding withRetry_def by (rule withRetry_loop_exhausted) simp

theorem withRetry_zero_retries_witness:
  "(0::int) \<le> 0 \<and> withRetry always_429 0 1000 (0::nat) = (Inl Undefined, 0, [])"
  using withRetry_zero_retries [of 0 always_429 1000 0] by simp

text \<open>
  C5: when the first attempt fails with a failure that is not retryable (its status is
  neither 429 nor 503 and its message contains neither \<open>quota\<close> nor \<open>fetch\<close>),
  \<open>withRetry\<close> rejects with that very failure at once: the operation has been called
  once, and no delay has been awaited.
\<close>

theorem withRetry_not_retryable:
  assumes "1 \<le> maxRetries"
    and "fn s = (Inl e, s')"
    and "carried_status e \<noteq> Some 429" and "carried_status e \<noteq> Some 503"
    and "\<not> message_includes e ''quota''" and "\<not> message_includes e ''fetch''"
  shows "withRetry fn maxRetries initialDelay s = (Inl e, s', [Invoked])"
proof -
  have "\<not> retryable e"
    using assms(3-6) by (simp add: retryable_def)
  moreover have "int 0 < maxRetries"
    using assms(1) by simp
  ultimately show ?thesis
    unfolding withRetry_def using assms(2) by (intro withRetry_loop_fatal)
qed

theorem withRetry_not_retryable_witness:
  "withRetry always_400 3 1000 (0::nat) =
     (Inl (Thrown \<lparr>status = Some 400, response_status = None, message = Some ''Bad Request''\<rparr>),
      1, [Invoked])"
proof -
  have h1: "(1::int) \<le> 3" by simp
  have h2: "always_400 0 =
     (Inl (Thrown \<lparr>status = Some 400, response_status = None, message = Some ''Bad Request''\<rparr>), 1)"
    by (simp add: always_400_def)
  show ?thesis
    by (rule withRetry_not_retryable
          [where fn = always_400 and s = "0::nat" and maxRetries = 3, OF h1 h2])
       simp_all
qed

text \<open>
  C1: when every attempt of a run fails with a retryable failure (status 429 or 503, or
  a message containing \<open>quota\<close> or \<open>fetch\<close>) and \<open>maxRetries\<close> is at least 1,
  \<open>withRetry\<close> calls the operation exactly \<open>maxRetries\<close> times, awaits the delay
  \<open>initialDelay * 2 ^ i\<close> after failed attempt number \<open>i\<close> (counted from 0), with
  nothing else in between, and rejects with the failure of the last attempt itself.
\<close>

theorem withRetry_exhausts_retries:
  assumes "1 \<le> maxRetries"
    and "\<forall>i<nat maxRetries. \<exists>e. fst (fn (run_state fn i s)) = Inl e \<and>
           (carried_status e = Some 429 \<or> carried_status e = Some 503 \<or>
            message_includes e ''quota'' \<or> message_includes e ''fetch'')"
  shows "withRetry fn maxRetries initialDelay s =
           (fst (fn (run_state fn (nat maxRetries - 1) s)),
            run_state fn (nat maxRetries) s,
            concat (map (\<lambda>i. [Invoked, Delayed (initialDelay * 2 ^ i)]) [0..<nat maxRetries]))
         \<and> length (filter (\<lambda>ev. ev = Invoked) (snd (snd (withRetry fn maxRetries initialDelay s))))
             = nat maxRetries"
proof -
  have "int 0 < maxRetries"
    using assms(1) by simp
  moreover have "\<forall>k<nat maxRetries - 0. \<exists>e. fst (fn (run_state fn k s)) = Inl e \<and> retryable e"
    using assms(2) by (simp add: retryable_def)
  ultimately have eq: "withRetry_loop fn maxRetries initialDelay 0 Undefined s =
           (fst (fn (run_state fn (nat maxRetries - 0 - 1) s)),
            run_state fn (nat maxRetries - 0) s,
            concat (map (\<lambda>j. [Invoked, Delayed (initialDelay * 2 ^ j)]) [0..<nat maxRetries]))"
    by (rule withRetry_loop_all_retryable)
  have cnt: "length (filter (\<lambda>ev. ev = Invoked)
                 (concat (map (\<lambda>j. [Invoked, Delayed (d * 2 ^ j)]) [0..<n]))) = n" for d :: int and n :: nat
    by (induction n) simp_all
  show ?thesis
    unfolding withRetry_def eq by (simp add: cnt)
qed

theorem withRetry_exhausts_retries_witness:
  "withRetry always_429 3 1000 0 =
     (Inl (Thrown \<lparr>status = Some 429, response_status = None, message = Some ''Too Many Requests''\<rparr>),
      3, [Invoked, Delayed 1000, Invoked, Delayed 2000, Invoked, Delayed 4000])"
proof -
  have st: "run_state always_429 k n = n + k" for k n
    by (induction k arbitrary: n) (simp_all add: always_429_def)
  have h1: "(1::int) \<le> 3" by simp
  have h2: "\<forall>i<nat 3. \<exists>e. fst (always_429 (run_state always_429 i 0)) = Inl e \<and>
           (carried_status e = Some 429 \<or> carried_status e = Some 503 \<or>
            message_includes e ''quota'' \<or> message_includes e ''fetch'')"
    by (simp add: always_429_def)
  have up: "[0..<3] = [0, 1, 2::nat]"
    by (simp add: upt_rec)
  have r1: "fst (always_429 (run_state always_429 (nat 3 - 1) 0)) =
      Inl (Thrown \<lparr>status = Some 429, response_status = None, message = Some ''Too Many Requests''\<rparr>)"
    by (simp add: always_429_def)
  have r2: "run_state always_429 (nat 3) 0 = 3"
    by (simp add: st)
  have r3: "concat (map (\<lambda>i. [Invoked, Delayed (1000 * 2 ^ i)]) [0..<nat 3]) =
      [Invoked, Delayed 1000, Invoked, Delayed 2000, Invoked, Delayed 4000]"
    by (simp add: up)
  show ?thesis
    using withRetry_exhausts_retries [OF h1 h2, of 1000, THEN conjunct1]
    unfolding r1 r2 r3 .
qed

lemma withRetry_success:
  "fn s = (Inr v, s') \<Longrightarrow>
   withRetry fn default_maxRetries default_initialDelay s = (Inr v, s', [Invoked])"
  unfolding withRetry_def by (rule withRetry_loop_success) (simp_all add: default_maxRetries_def)

lemma withRetry_fatal:
  "fn s = (Inl e, s') \<Longrightarrow> \<not> retryable e \<Longrightarrow>
   withRetry fn default_maxRetries default_initialDelay s = (Inl e, s', [Invoked])"
  unfolding withRetry_def by (rule withRetry_loop_fatal) (simp_all add: default_maxRetries_def)

lemma withRetry_replies_with:
  "withRetry (replies_with text req) default_maxRetries default_initialDelay n =
     (Inr (Inr text), Suc n, [Invoked])"
  by (rule withRetry_success) (simp add: replies_with_def)

lemma withRetry_rejects_with_fatal:
  "\<not> retryable (Thrown e) \<Longrightarrow>
   withRetry (rejects_with e req) default_maxRetries default_initialDelay n =
     (Inl (Thrown e), Suc n, [Invoked])"
  by (rule withRetry_fatal) (simp_all add: rejects_with_def)

lemma withRetry_three_failures:
  assumes "retryable e"
    and "fn n = (Inl e, Suc n)"
    and "fn (Suc n) = (Inl e, Suc (Suc n))"
    and "fn (Suc (Suc n)) = (Inl e, Suc (Suc (Suc n)))"
  shows "withRetry fn default_maxRetries default_initialDelay n =
     (Inl e, n + 3, [Invoked, Delayed 1000, Invoked, Delayed 2000, Invoked, Delayed 4000])"
proof -
  have l3: "withRetry_loop fn 3 1000 3 e (Suc (Suc (Suc n))) = (Inl e, Suc (Suc (Suc n)), [])"
    by (rule withRetry_loop_exhausted) simp
  have l2: "withRetry_loop fn 3 1000 2 e (Suc (Suc n)) =
      (Inl e, Suc (Suc (Suc n)), [Invoked, Delayed 4000])"
    using withRetry_loop_retry [of 2 3 fn "Suc (Suc n)" e "Suc (Suc (Suc n))" 1000 e] assms(1,4) l3
    by (simp add: eval_nat_numeral)
  have l1: "withRetry_loop fn 3 1000 1 e (Suc n) =
      (Inl e, Suc (Suc (Suc n)), [Invoked, Delayed 2000, Invoked, Delayed 4000])"
    using withRetry_loop_retry [of 1 3 fn "Suc n" e "Suc (Suc n)" 1000 e] assms(1,3) l2
    by (simp add: eval_nat_numeral)
  have l0: "withRetry_loop fn 3 1000 0 Undefined n =
      (Inl e, Suc (Suc (Suc n)),
       [Invoked, Delayed 1000, Invoked, Delayed 2000, Invoked, Delayed 4000])"
    using withRetry_loop_retry [of 0 3 fn n e "Suc n" 1000 Undefined] assms(1,2) l1
    by simp
  show ?thesis
    unfolding withRetry_def default_maxRetries_def default_initialDelay_def
    using l0 by simp
qed

lemma withRetry_rejects_with_retryable:
  assumes "retryable (Thrown e)"
  shows "withRetry (rejects_with e req) default_maxRetries default_initialDelay n =
     (Inl (Thrown e), n + 3,
      [Invoked, Delayed 1000, Invoked, Delayed 2000, Invoked, Delayed 4000])"
  using assms by (rule withRetry_three_failures) (simp_all add: rejects_with_def)

lemma quota_error_retryable: "retryable (Thrown quota_error)"
  by (simp add: retryable_def quota_error_def)

lemma withRetry_quota_until:
  assumes "n + 3 \<le> k"
  shows "withRetry (quota_until k req) default_maxRetries default_initialDelay n =
     (Inl (Thrown quota_error), n + 3,
      [Invoked, Delayed 1000, Invoked, Delayed 2000, Invoked, Delayed 4000])"
  using quota_error_retryable
  by (rule withRetry_three_failures) (use assms in \<open>simp_all add: quota_until_def rejects_with_def\<close>)

lemma withRetry_rejects_with:
  "\<exists>n' tr. withRetry (rejects_with e req) default_maxRetries default_initialDelay n
      = (Inl (Thrown e), n', tr)"
proof (cases "retryable (Thrown e)")
  case True
  then show ?thesis by (simp add: withRetry_rejects_with_retryable)
next
  case False
  then show ?thesis by (simp add: withRetry_rejects_with_fatal)
qed

section \<open>Properties of the fallback loops\<close>

text \<open>
  All exits of a \<open>catch\<close> block are the same \<open>continue\<close>: a failed attempt hands its
  failure on as \<open>lastError\<close> and the loop goes on with the next candidate.
\<close>

lemma sendMessage_loop_Cons:
  "sendMessage_loop lib cfg history msg fs (n # names) le s =
     (case chat_attempt lib cfg history msg fs n s of
        (Inr reply, s', tr) \<Rightarrow> (Inr reply, s', tr)
      | (Inl error, s', tr) \<Rightarrow>
          (case sendMessage_loop lib cfg history msg fs names error s' of
             (res, s'', tr') \<Rightarrow> (res, s'', tr @ tr')))"
  by (simp split: prod.splits sum.splits)

lemma generate_loop_Cons:
  "generate_loop lib cfg syntaxError ps (n # names) le s =
     (case generate_attempt lib cfg syntaxError ps n s of
        (Inr v, s', tr) \<Rightarrow> (Inr v, s', tr)
      | (Inl error, s', tr) \<Rightarrow>
          (case generate_loop lib cfg syntaxError ps names error s' of
             (res, s'', tr') \<Rightarrow> (res, s'', tr @ tr')))"
  by (simp split: prod.splits sum.splits)

declare sendMessage_loop.simps(2) [simp del]
declare generate_loop.simps(2) [simp del]
declare sendMessage_loop_Cons [simp]
declare generate_loop_Cons [simp]

text \<open>A run of failed attempts is a run of the loop to its end, and the other way round.\<close>

lemma sendMessage_loop_failed_run:
  "failed_run (chat_attempt lib cfg history msg fs) names le s = Some (e, s', tr) \<longleftrightarrow>
   sendMessage_loop lib cfg history msg fs names le s = (Inl e, s', tr)"
proof (induction names arbitrary: le s tr)
  case Nil
  show ?case by auto
next
  case (Cons n names)
  obtain r s1 tr1 where a: "chat_attempt lib cfg history msg fs n s = (r, s1, tr1)"
    by (cases "chat_attempt lib cfg history msg fs n s") auto
  show ?case
  proof (cases r)
    case (Inr reply)
    with a show ?thesis by simp
  next
    case (Inl e1)
    obtain r2 s2 tr2 where l: "sendMessage_loop lib cfg history msg fs names e1 s1 = (r2, s2, tr2)"
      by (cases "sendMessage_loop lib cfg history msg fs names e1 s1") auto
    have ih: "failed_run (chat_attempt lib cfg history msg fs) names e1 s1 = Some (e, s', t) \<longleftrightarrow>
        (r2, s2, tr2) = (Inl e, s', t)" for t
      using Cons.IH [of e1 s1 t] by (simp add: l)
    show ?thesis
      using a Inl l ih by (cases "failed_run (chat_attempt lib cfg history msg fs) names e1 s1")
        (auto split: option.splits)
  qed
qed

lemma generate_loop_failed_run:
  "failed_run (generate_attempt lib cfg syntaxError ps) names le s = Some (e, s', tr) \<longleftrightarrow>
   generate_loop lib cfg syntaxError ps names le s = (Inl e, s', tr)"
proof (induction names arbitrary: le s tr)
  case Nil
  show ?case by auto
next
  case (Cons n names)
  obtain r s1 tr1 where a: "generate_attempt lib cfg syntaxError ps n s = (r, s1, tr1)"
    by (cases "generate_attempt lib cfg syntaxError ps n s") auto
  show ?case
  proof (cases r)
    case (Inr v)
    with a show ?thesis by simp
  next
    case (Inl e1)
    obtain r2 s2 tr2 where l: "generate_loop lib cfg syntaxError ps names e1 s1 = (r2, s2, tr2)"
      by (cases "generate_loop lib cfg syntaxError ps names e1 s1") auto
    have ih: "failed_run (generate_attempt lib cfg syntaxError ps) names e1 s1 = Some (e, s', t) \<longleftrightarrow>
        (r2, s2, tr2) = (Inl e, s', t)" for t
      using Cons.IH [of e1 s1 t] by (simp add: l)
    show ?thesis
      using a Inl l ih by (cases "failed_run (generate_attempt lib cfg syntaxError ps) names e1 s1")
        (auto split: option.splits)
  qed
qed

lemma sendMessage_loop_first_success:
  assumes "failed_run (chat_attempt lib cfg history msg fs) pre le s = Some (e, s1, tr1)"
    and "chat_attempt lib cfg history msg fs m s1 = (Inr reply, s2, tr2)"
  shows "sendMessage_loop lib cfg history msg fs (pre @ m # post) le s = (Inr reply, s2, tr1 @ tr2)"
  using assms
proof (induction pre arbitrary: s le tr1)
  case Nil
  then show ?case by simp
next
  case (Cons p pre)
  obtain r s' tr where a: "chat_attempt lib cfg history msg fs p s = (r, s', tr)"
    by (cases "chat_attempt lib cfg history msg fs p s") auto
  from Cons.prems(1) a obtain e1 where r: "r = Inl e1"
    by (cases r) auto
  from Cons.prems(1) a r obtain tr' where
    run: "failed_run (chat_attempt lib cfg history msg fs) pre e1 s' = Some (e, s1, tr')"
    and tr1: "tr1 = tr @ tr'"
    by (auto split: option.splits)
  have "sendMessage_loop lib cfg history msg fs (pre @ m # post) e1 s' = (Inr reply, s2, tr' @ tr2)"
    using Cons.IH [OF run Cons.prems(2)] .
  then show ?case
    by (simp add: a r tr1)
qed

text \<open>Every run either fails on all candidates or has a first candidate that succeeds.\<close>

lemma failed_run_or_success:
  "(\<exists>e s1 tr1. failed_run attempt names le s = Some (e, s1, tr1)) \<or>
   (\<exists>pre m post e s1 tr1 v s2 tr2.
      names = pre @ m # post \<and> failed_run attempt pre le s = Some (e, s1, tr1)
      \<and> attempt m s1 = (Inr v, s2, tr2))"
proof (induction names arbitrary: le s)
  case Nil
  show ?case by simp
next
  case (Cons n names)
  obtain r s' tr where a: "attempt n s = (r, s', tr)"
    by (cases "attempt n s") auto
  show ?case
  proof (cases r)
    case (Inr v)
    have "n # names = [] @ n # names \<and> failed_run attempt [] le s = Some (le, s, [])
          \<and> attempt n s = (Inr v, s', tr)"
      using a Inr by simp
    then show ?thesis by blast
  next
    case (Inl e1)
    from Cons.IH [of e1 s'] show ?thesis
    proof
      assume "\<exists>e s1 tr1. failed_run attempt names e1 s' = Some (e, s1, tr1)"
      then show ?thesis
        using a Inl by auto
    next
      assume "\<exists>pre m post e s1 tr1 v s2 tr2.
        names = pre @ m # post \<and> failed_run attempt pre e1 s' = Some (e, s1, tr1)
        \<and> attempt m s1 = (Inr v, s2, tr2)"
      then obtain pre m post e s1 tr1 v s2 tr2 where
        n: "names = pre @ m # post" and f: "failed_run attempt pre e1 s' = Some (e, s1, tr1)"
        and ok: "attempt m s1 = (Inr v, s2, tr2)"
        by blast
      have "n # names = (n # pre) @ m # post
            \<and> failed_run attempt (n # pre) le s = Some (e, s1, tr @ tr1)
            \<and> attempt m s1 = (Inr v, s2, tr2)"
        using n f ok a Inl by simp
      then show ?thesis by blast
    qed
  qed
qed

lemma failed_run_always:
  assumes "\<forall>m s. \<exists>s' tr. attempt m s = (Inl e, s', tr)"
  shows "names \<noteq> [] \<Longrightarrow> \<exists>s' tr. failed_run attempt names le s = Some (e, s', tr)"
proof (induction names arbitrary: le s)
  case Nil
  then show ?case by simp
next
  case (Cons n names)
  from assms obtain s1 tr1 where a: "attempt n s = (Inl e, s1, tr1)"
    by blast
  show ?case
  proof (cases names)
    case Nil
    with a show ?thesis by simp
  next
    case (Cons n' rest)
    then have "names \<noteq> []" by simp
    from Cons.IH [OF this, of e s1] obtain s2 tr2 where
      "failed_run attempt names e s1 = Some (e, s2, tr2)"
      by blast
    with a show ?thesis by simp
  qed
qed

lemma MODELS_last: "MODELS \<noteq> [] \<and> last MODELS = ''gemini-1.5-pro''"
  by (simp add: MODELS_def)

text \<open>Attempts through a library that never throws on its own.\<close>

lemma chat_attempt_library_of:
  "chat_attempt (library_of svc) cfg history msg fs m s =
     (case withRetry (svc (chat_request cfg m history msg fs)) default_maxRetries default_initialDelay s of
        (Inl e, s', tr) \<Rightarrow> (Inl e, s', map (Pair (chat_request cfg m history msg fs)) tr)
      | (Inr result, s', tr) \<Rightarrow>
          (case result of
             Inl e \<Rightarrow> (Inl e, s', map (Pair (chat_request cfg m history msg fs)) tr)
           | Inr reply \<Rightarrow> (Inr reply, s', map (Pair (chat_request cfg m history msg fs)) tr)))"
  by (simp add: chat_attempt_def library_of_def Let_def)

lemma generate_attempt_library_of:
  "generate_attempt (library_of svc) cfg syntaxError ps m s =
     (case withRetry (svc (Generate (getApiKey cfg) m ps)) default_maxRetries default_initialDelay s of
        (Inl e, s', tr) \<Rightarrow> (Inl e, s', map (Pair (Generate (getApiKey cfg) m ps)) tr)
      | (Inr result, s', tr) \<Rightarrow>
          (case result of
             Inl e \<Rightarrow> (Inl e, s', map (Pair (Generate (getApiKey cfg) m ps)) tr)
           | Inr reply \<Rightarrow>
               (case parse_response reply of
                  Some v \<Rightarrow> (Inr v, s', map (Pair (Generate (getApiKey cfg) m ps)) tr)
                | None \<Rightarrow>
                    (Inl (syntaxError (trim (replace_fences reply))), s',
                     map (Pair (Generate (getApiKey cfg) m ps)) tr))))"
  by (simp add: generate_attempt_def library_of_def Let_def)

lemma chat_run_rejects_with:
  "\<exists>n' tr. failed_run (chat_attempt (library_of (rejects_with e)) cfg history msg fs)
              MODELS Undefined n = Some (Thrown e, n', tr)"
proof -
  have "\<forall>m s. \<exists>s' tr. chat_attempt (library_of (rejects_with e)) cfg history msg fs m s
          = (Inl (Thrown e), s', tr)"
  proof (intro allI)
    fix m s
    obtain n' tr where
      "withRetry (rejects_with e (chat_request cfg m history msg fs))
         default_maxRetries default_initialDelay s = (Inl (Thrown e), n', tr)"
      using withRetry_rejects_with by blast
    then show "\<exists>s' tr. chat_attempt (library_of (rejects_with e)) cfg history msg fs m s
          = (Inl (Thrown e), s', tr)"
      by (simp add: chat_attempt_library_of)
  qed
  then show ?thesis
    using MODELS_last by (intro failed_run_always) simp_all
qed

lemma generate_run_rejects_with:
  "\<exists>n' tr. failed_run (generate_attempt (library_of (rejects_with e)) cfg syntaxError ps)
              MODELS Undefined n = Some (Thrown e, n', tr)"
proof -
  have "\<forall>m s. \<exists>s' tr. generate_attempt (library_of (rejects_with e)) cfg syntaxError ps m s
          = (Inl (Thrown e), s', tr)"
  proof (intro allI)
    fix m s
    obtain n' tr where
      "withRetry (rejects_with e (Generate (getApiKey cfg) m ps))
         default_maxRetries default_initialDelay s = (Inl (Thrown e), n', tr)"
      using withRetry_rejects_with by blast
    then show "\<exists>s' tr. generate_attempt (library_of (rejects_with e)) cfg syntaxError ps m s
          = (Inl (Thrown e), s', tr)"
      by (simp add: generate_attempt_library_of)
  qed
  then show ?thesis
    using MODELS_last by (intro failed_run_always) simp_all
qed

lemma with_key_present: "getApiKey with_key \<noteq> []"
  by (simp add: getApiKey_def with_key_def)

lemma library_of_client: "new_client (library_of svc) key = None"
  by (simp add: library_of_def)

lemma sendMessage_rejects_with:
  assumes "getApiKey cfg \<noteq> []"
  shows "fst (sendMessage (library_of (rejects_with e)) cfg history msg fs n)
           = Inl (sendMessage_failure (Thrown e))"
proof -
  obtain n' tr where
    "failed_run (chat_attempt (library_of (rejects_with e)) cfg history msg fs)
       MODELS Undefined n = Some (Thrown e, n', tr)"
    using chat_run_rejects_with by blast
  then have "sendMessage_loop (library_of (rejects_with e)) cfg history msg fs MODELS Undefined n
      = (Inl (Thrown e), n', tr)"
    by (simp add: sendMessage_loop_failed_run)
  then show ?thesis
    using assms by (simp add: sendMessage_def library_of_client)
qed

lemma generate_loop_rejects_with:
  "\<exists>s' tr. generate_loop (library_of (rejects_with e)) cfg syntaxError ps MODELS Undefined n
      = (Inl (Thrown e), s', tr)"
  using generate_run_rejects_with [of e cfg syntaxError ps n]
  by (auto simp: generate_loop_failed_run)

section \<open>Properties of sendMessage\<close>

text \<open>
  C8, as stated, fails: the first candidate whose wrapped call succeeds need not
  determine the reply. Reading the text of the result is inside the same \<open>try\<close>; when
  it throws, the loop goes on. Here the wrapped call of the first candidate resolves,
  the text of its result cannot be read, and the reply is that of the second candidate,
  which is called after it.
\<close>

theorem fallback_after_unreadable_reply:
  "withRetry (first_model_blocked (chat_request with_key ''gemini-flash-latest'' [] ''Hi'' []))
     default_maxRetries default_initialDelay 0
     = (Inr (Inl (Thrown blocked_error)), 1, [Invoked])
   \<and> sendMessage (library_of first_model_blocked) with_key [] ''Hi'' [] 0 =
       (Inr ''Hello!'', 2,
        [(chat_request with_key ''gemini-flash-latest'' [] ''Hi'' [], Invoked),
         (chat_request with_key ''gemini-2.0-flash'' [] ''Hi'' [], Invoked)])"
proof -
  have w1: "withRetry (first_model_blocked (chat_request with_key ''gemini-flash-latest'' [] ''Hi'' []))
     default_maxRetries default_initialDelay 0
     = (Inr (Inl (Thrown blocked_error)), 1, [Invoked])"
    by (rule withRetry_success) (simp add: first_model_blocked_def chat_request_def)
  have s2: "first_model_blocked (chat_request with_key ''gemini-2.0-flash'' [] ''Hi'' [])
              = replies_with ''Hello!'' (chat_request with_key ''gemini-2.0-flash'' [] ''Hi'' [])"
    by (rule ext) (simp add: first_model_blocked_def chat_request_def)
  have "sendMessage (library_of first_model_blocked) with_key [] ''Hi'' [] 0 =
       (Inr ''Hello!'', 2,
        [(chat_request with_key ''gemini-flash-latest'' [] ''Hi'' [], Invoked),
         (chat_request with_key ''gemini-2.0-flash'' [] ''Hi'' [], Invoked)])"
    using with_key_present
    by (simp add: sendMessage_def library_of_client MODELS_def chat_attempt_library_of w1 s2
          withRetry_replies_with)
  with w1 show ?thesis by simp
qed

text \<open>
  C8, amended: in every invocation of \<open>sendMessage\<close> that has a key and a client, the
  candidates are attempted in the order of \<open>MODELS\<close> (\<open>gemini-flash-latest\<close>,
  \<open>gemini-2.0-flash\<close>, \<open>gemini-2.0-flash-lite-preview-09-2025\<close>,
  \<open>gemini-1.5-pro\<close>), the network call of each attempt wrapped in \<open>withRetry\<close>. If
  the attempts of the candidates before \<open>m\<close> all fail, in whatever step and with
  whatever failure, and the whole attempt of \<open>m\<close> succeeds (model and chat built,
  wrapped call resolved, text read), the reply is that text, the events are those of the
  candidates up to \<open>m\<close> in order, and the world is left as the attempt of \<open>m\<close> left it:
  no later candidate is tried. If the attempts of all four candidates fail, the error
  made from the last failure is thrown. Every invocation is of one of these two kinds.
  Once the model and the chat of a candidate are built, the events of its attempt are
  those of the one call wrapped in \<open>withRetry\<close> with 3 attempts and a first delay of
  1000.
\<close>

theorem sendMessage_fallback_order:
  assumes "getApiKey cfg \<noteq> []"
    and "new_client lib (getApiKey cfg) = None"
  shows "MODELS = [''gemini-flash-latest'', ''gemini-2.0-flash'',
                   ''gemini-2.0-flash-lite-preview-09-2025'', ''gemini-1.5-pro'']
       \<and> (\<forall>pre m post le s1 tr1 reply s2 tr2.
             MODELS = pre @ m # post
             \<and> failed_run (chat_attempt lib cfg history msg fs) pre Undefined s = Some (le, s1, tr1)
             \<and> chat_attempt lib cfg history msg fs m s1 = (Inr reply, s2, tr2)
             \<longrightarrow> sendMessage lib cfg history msg fs s = (Inr reply, s2, tr1 @ tr2))
       \<and> (\<forall>le s1 tr1.
             failed_run (chat_attempt lib cfg history msg fs) MODELS Undefined s = Some (le, s1, tr1)
             \<longrightarrow> sendMessage lib cfg history msg fs s = (Inl (sendMessage_failure le), s1, tr1))
       \<and> ((\<exists>le s1 tr1.
              failed_run (chat_attempt lib cfg history msg fs) MODELS Undefined s = Some (le, s1, tr1))
            \<or> (\<exists>pre m post le s1 tr1 reply s2 tr2.
              MODELS = pre @ m # post
              \<and> failed_run (chat_attempt lib cfg history msg fs) pre Undefined s = Some (le, s1, tr1)
              \<and> chat_attempt lib cfg history msg fs m s1 = (Inr reply, s2, tr2)))
       \<and> (\<forall>m s0.
             getGenerativeModel lib (getApiKey cfg) m (Some SYSTEM_PROMPT) = None
             \<and> startChat lib (getApiKey cfg) m (map to_turn (apiHistory history)) = None
             \<longrightarrow> snd (snd (chat_attempt lib cfg history msg fs m s0)) =
                   map (Pair (chat_request cfg m history msg fs))
                     (snd (snd (withRetry (send lib (chat_request cfg m history msg fs)) 3 1000 s0))))"
proof -
  have wrapped: "snd (snd (chat_attempt lib cfg history msg fs m s0)) =
                   map (Pair (chat_request cfg m history msg fs))
                     (snd (snd (withRetry (send lib (chat_request cfg m history msg fs)) 3 1000 s0)))"
    if "getGenerativeModel lib (getApiKey cfg) m (Some SYSTEM_PROMPT) = None"
      and "startChat lib (getApiKey cfg) m (map to_turn (apiHistory history)) = None"
    for m s0
    using that
    by (simp add: chat_attempt_def Let_def default_maxRetries_def default_initialDelay_def
          split: prod.splits sum.splits)
  have order: "MODELS = [''gemini-flash-latest'', ''gemini-2.0-flash'',
                   ''gemini-2.0-flash-lite-preview-09-2025'', ''gemini-1.5-pro'']"
    by (simp add: MODELS_def)
  have first: "sendMessage lib cfg history msg fs s = (Inr reply, s2, tr1 @ tr2)"
    if "MODELS = pre @ m # post"
      and "failed_run (chat_attempt lib cfg history msg fs) pre Undefined s = Some (le, s1, tr1)"
      and "chat_attempt lib cfg history msg fs m s1 = (Inr reply, s2, tr2)"
    for pre m post le s1 tr1 reply s2 tr2
  proof -
    have "sendMessage_loop lib cfg history msg fs MODELS Undefined s = (Inr reply, s2, tr1 @ tr2)"
      unfolding that(1) using that(2,3) by (rule sendMessage_loop_first_success)
    then show ?thesis
      using assms by (simp add: sendMessage_def)
  qed
  have none: "sendMessage lib cfg history msg fs s = (Inl (sendMessage_failure le), s1, tr1)"
    if "failed_run (chat_attempt lib cfg history msg fs) MODELS Undefined s = Some (le, s1, tr1)"
    for le s1 tr1
  proof -
    have "sendMessage_loop lib cfg history msg fs MODELS Undefined s = (Inl le, s1, tr1)"
      using that by (simp add: sendMessage_loop_failed_run)
    then show ?thesis
      using assms by (simp add: sendMessage_def)
  qed
  have kinds: "(\<exists>le s1 tr1.
              failed_run (chat_attempt lib cfg history msg fs) MODELS Undefined s = Some (le, s1, tr1))
            \<or> (\<exists>pre m post le s1 tr1 reply s2 tr2.
              MODELS = pre @ m # post
              \<and> failed_run (chat_attempt lib cfg history msg fs) pre Undefined s = Some (le, s1, tr1)
              \<and> chat_attempt lib cfg history msg fs m s1 = (Inr reply, s2, tr2))"
    by (rule failed_run_or_success)
  from order first none kinds wrapped show ?thesis
    by blast
qed

theorem sendMessage_fallback_order_witness:
  "sendMessage (library_of second_model_replies) with_key [] ''Hi'' [] 0 =
     (Inr ''Hello!'', 2,
      [(chat_request with_key ''gemini-flash-latest'' [] ''Hi'' [], Invoked),
       (chat_request with_key ''gemini-2.0-flash'' [] ''Hi'' [], Invoked)])
   \<and> fst (sendMessage (library_of (rejects_with internal_error)) with_key [] ''Hi'' [] 0) =
       Inl (Error ''Failed to get AI response after trying multiple models. Internal error'')"
proof -
  let ?lib = "library_of second_model_replies"
  let ?r1 = "chat_request with_key ''gemini-flash-latest'' [] ''Hi'' []"
  let ?r2 = "chat_request with_key ''gemini-2.0-flash'' [] ''Hi'' []"
  have client: "new_client lib' (getApiKey with_key) = None" if "lib' = library_of svc" for lib' svc
    using that by (simp add: library_of_client)
  have split: "MODELS = [''gemini-flash-latest''] @ ''gemini-2.0-flash''
                 # [''gemini-2.0-flash-lite-preview-09-2025'', ''gemini-1.5-pro'']"
    by (simp add: MODELS_def)
  have s1: "second_model_replies ?r1 = rejects_with internal_error ?r1"
    by (rule ext) (simp add: second_model_replies_def chat_request_def)
  have s2: "second_model_replies ?r2 = replies_with ''Hello!'' ?r2"
    by (rule ext) (simp add: second_model_replies_def chat_request_def)
  have fatal: "\<not> retryable (Thrown internal_error)"
    by (simp add: retryable_def internal_error_def)
  have run: "failed_run (chat_attempt ?lib with_key [] ''Hi'' []) [''gemini-flash-latest''] Undefined 0
             = Some (Thrown internal_error, 1, [(?r1, Invoked)])"
    by (simp add: chat_attempt_library_of s1 withRetry_rejects_with_fatal [OF fatal])
  have ok: "chat_attempt ?lib with_key [] ''Hi'' [] ''gemini-2.0-flash'' 1
              = (Inr ''Hello!'', 2, [(?r2, Invoked)])"
    by (simp add: chat_attempt_library_of s2 withRetry_replies_with)
  have a: "sendMessage ?lib with_key [] ''Hi'' [] 0 = (Inr ''Hello!'', 2, [(?r1, Invoked)] @ [(?r2, Invoked)])"
    using sendMessage_fallback_order [OF with_key_present client [OF refl],
        of second_model_replies "[]" "''Hi''" "[]" 0] split run ok
    by blast
  obtain n' tr where all: "failed_run (chat_attempt (library_of (rejects_with internal_error))
       with_key [] ''Hi'' []) MODELS Undefined 0 = Some (Thrown internal_error, n', tr)"
    using chat_run_rejects_with by blast
  have "sendMessage (library_of (rejects_with internal_error)) with_key [] ''Hi'' [] 0
      = (Inl (sendMessage_failure (Thrown internal_error)), n', tr)"
    using sendMessage_fallback_order [OF with_key_present client [OF refl],
        of "rejects_with internal_error" "[]" "''Hi''" "[]" 0] all
    by blast
  then have b: "fst (sendMessage (library_of (rejects_with internal_error)) with_key [] ''Hi'' [] 0) =
       Inl (Error ''Failed to get AI response after trying multiple models. Internal error'')"
    by (simp add: sendMessage_failure_def internal_error_def)
  from a b show ?thesis by simp
qed

lemma chat_attempt_requests:
  "(req, ev) \<in> set (snd (snd (chat_attempt lib cfg history msg fs m s))) \<Longrightarrow>
   req = chat_request cfg m history msg fs"
  by (auto simp: chat_attempt_def Let_def split: option.splits prod.splits sum.splits)

lemma sendMessage_loop_requests:
  "(req, ev) \<in> set (snd (snd (sendMessage_loop lib cfg history msg fs names le s))) \<Longrightarrow>
   \<exists>m. req = chat_request cfg m history msg fs"
proof (induction names arbitrary: le s)
  case Nil
  then show ?case by simp
next
  case (Cons n names)
  obtain r s' tr where a: "chat_attempt lib cfg history msg fs n s = (r, s', tr)"
    by (cases "chat_attempt lib cfg history msg fs n s") auto
  have here: "\<exists>m. req = chat_request cfg m history msg fs" if "(req, ev) \<in> set tr"
  proof -
    from that have "(req, ev) \<in> set (snd (snd (chat_attempt lib cfg history msg fs n s)))"
      by (simp add: a)
    then have "req = chat_request cfg n history msg fs"
      by (rule chat_attempt_requests)
    then show ?thesis ..
  qed
  show ?case
  proof (cases r)
    case (Inr reply)
    with Cons.prems a have "(req, ev) \<in> set tr" by simp
    then show ?thesis by (rule here)
  next
    case (Inl e)
    obtain r' s'' tr' where
      l: "sendMessage_loop lib cfg history msg fs names e s' = (r', s'', tr')"
      by (cases "sendMessage_loop lib cfg history msg fs names e s'") auto
    from Cons.prems a Inl l have "(req, ev) \<in> set tr \<or> (req, ev) \<in> set tr'"
      by simp
    then show ?thesis
    proof
      assume "(req, ev) \<in> set tr"
      then show ?thesis by (rule here)
    next
      assume "(req, ev) \<in> set tr'"
      then have "(req, ev) \<in> set (snd (snd (sendMessage_loop lib cfg history msg fs names e s')))"
        by (simp add: l)
      then show ?thesis by (rule Cons.IH)
    qed
  qed
qed

lemma sendMessage_requests:
  assumes "(req, ev) \<in> set (snd (snd (sendMessage lib cfg history msg fs s)))"
  shows "req_history req = map to_turn (apiHistory history)"
proof -
  have sent: "getApiKey cfg \<noteq> [] \<and> new_client lib (getApiKey cfg) = None"
    using assms by (auto simp: sendMessage_def split: if_splits option.splits)
  obtain r s' tr where
    l: "sendMessage_loop lib cfg history msg fs MODELS Undefined s = (r, s', tr)"
    by (cases "sendMessage_loop lib cfg history msg fs MODELS Undefined s") auto
  from assms sent l have "(req, ev) \<in> set tr"
    by (cases r) (simp_all add: sendMessage_def)
  then have "(req, ev) \<in> set (snd (snd (sendMessage_loop lib cfg history msg fs MODELS Undefined s)))"
    by (simp add: l)
  from sendMessage_loop_requests [OF this]
  obtain m where "req = chat_request cfg m history msg fs"
    by blast
  then show ?thesis by (simp add: chat_request_def)
qed

text \<open>
  C4: every request \<open>sendMessage\<close> sends carries, as the history of the chat, the
  transcript without its first entry when that entry has role \<open>model\<close> (the other
  entries stay, in order), and the whole transcript, in order, when it is empty or
  starts with a \<open>user\<close> entry. Each entry goes upstream as its role and the one text
  part made of its content.
\<close>

theorem sendMessage_upstream_history:
  assumes "(req, ev) \<in> set (snd (snd (sendMessage lib cfg history msg fs s)))"
  shows "(\<forall>m ms. history = m # ms \<and> role m = model \<longrightarrow>
            req_history req = map (\<lambda>msg. \<lparr>turn_role = role msg, turn_parts = [PText (content msg)]\<rparr>) ms)
       \<and> (history = [] \<or> (\<exists>m ms. history = m # ms \<and> role m = user) \<longrightarrow>
            req_history req = map (\<lambda>msg. \<lparr>turn_role = role msg, turn_parts = [PText (content msg)]\<rparr>) history)"
proof -
  have tt: "to_turn = (\<lambda>msg. \<lparr>turn_role = role msg, turn_parts = [PText (content msg)]\<rparr>)"
    by (rule ext) (simp add: to_turn_def)
  have "req_history req = map to_turn (apiHistory history)"
    using assms by (rule sendMessage_requests)
  then show ?thesis
    unfolding tt by (auto simp: apiHistory_def)
qed

theorem sendMessage_upstream_history_witness:
  "req_history (chat_request with_key ''gemini-flash-latest'' sample_history ''And diffusion?'' [])
     = [\<lparr>turn_role = user, turn_parts = [PText ''What is osmosis?'']\<rparr>,
        \<lparr>turn_role = model,
         turn_parts = [PText ''Osmosis is the movement of water across a membrane.'']\<rparr>]
   \<and> req_history (chat_request with_key ''gemini-flash-latest'' (tl sample_history) ''And diffusion?'' [])
     = [\<lparr>turn_role = user, turn_parts = [PText ''What is osmosis?'']\<rparr>,
        \<lparr>turn_role = model,
         turn_parts = [PText ''Osmosis is the movement of water across a membrane.'']\<rparr>]"
proof -
  have run: "sendMessage (library_of (replies_with ''Diffusion is...'')) with_key h ''And diffusion?'' [] 0
      = (Inr ''Diffusion is...'', 1,
         [(chat_request with_key ''gemini-flash-latest'' h ''And diffusion?'' [], Invoked)])" for h
    using with_key_present
    by (simp add: sendMessage_def library_of_client MODELS_def chat_attempt_library_of
          withRetry_replies_with)
  have mem: "(chat_request with_key ''gemini-flash-latest'' h ''And diffusion?'' [], Invoked)
      \<in> set (snd (snd (sendMessage (library_of (replies_with ''Diffusion is...'')) with_key h
                          ''And diffusion?'' [] 0)))"
    for h
    by (simp add: run)
  have a: "sample_history = hd sample_history # tl sample_history \<and> role (hd sample_history) = model"
    by (simp add: sample_history_def)
  have b: "tl sample_history = [] \<or>
      (\<exists>m ms. tl sample_history = m # ms \<and> role m = user)"
    by (simp add: sample_history_def)
  from sendMessage_upstream_history [OF mem [of sample_history], THEN conjunct1] a
  have 1: "req_history (chat_request with_key ''gemini-flash-latest'' sample_history ''And diffusion?'' [])
     = map (\<lambda>msg. \<lparr>turn_role = role msg, turn_parts = [PText (content msg)]\<rparr>) (tl sample_history)"
    by blast
  from sendMessage_upstream_history [OF mem [of "tl sample_history"], THEN conjunct2] b
  have 2: "req_history (chat_request with_key ''gemini-flash-latest'' (tl sample_history) ''And diffusion?'' [])
     = map (\<lambda>msg. \<lparr>turn_role = role msg, turn_parts = [PText (content msg)]\<rparr>) (tl sample_history)"
    by blast
  have v: "map (\<lambda>msg. \<lparr>turn_role = role msg, turn_parts = [PText (content msg)]\<rparr>) (tl sample_history)
     = [\<lparr>turn_role = user, turn_parts = [PText ''What is osmosis?'']\<rparr>,
        \<lparr>turn_role = model,
         turn_parts = [PText ''Osmosis is the movement of water across a membrane.'']\<rparr>]"
    by (simp add: sample_history_def)
  show ?thesis
    using 1 2 unfolding v by simp
qed

section \<open>A missing API key\<close>

text \<open>Without a key \<open>sendMessage\<close> fails at once, before any call.\<close>

lemma sendMessage_missing_key:
  "getApiKey cfg = [] \<Longrightarrow>
   sendMessage lib cfg history msg fs s =
     (Inl (Error ''Gemini API Key is missing. Please add VITE_GEMINI_API_KEY to your environment variables.''),
      s, [])"
  by (simp add: sendMessage_def)

lemma invalid_key_error_fatal: "\<not> retryable (Thrown invalid_key_error)"
  by (simp add: retryable_def invalid_key_error_def)

lemma generate_loop_invalid_key:
  "generate_loop (library_of (rejects_with invalid_key_error)) no_key syntaxError ps MODELS Undefined 0 =
     (Inl (Thrown invalid_key_error), 4,
      [(Generate [] ''gemini-flash-latest'' ps, Invoked),
       (Generate [] ''gemini-2.0-flash'' ps, Invoked),
       (Generate [] ''gemini-2.0-flash-lite-preview-09-2025'' ps, Invoked),
       (Generate [] ''gemini-1.5-pro'' ps, Invoked)])"
proof -
  have k: "getApiKey no_key = []"
    by (simp add: getApiKey_def no_key_def)
  show ?thesis
    by (simp add: MODELS_def k generate_attempt_library_of
          withRetry_rejects_with_fatal [OF invalid_key_error_fatal])
qed

text \<open>
  C2: only \<open>sendMessage\<close> checks the key. With no key configured, \<open>generateQuiz\<close>
  and \<open>generateFlashcards\<close> build the client with the empty key and call the service
  for each of the four candidates; against a service that rejects the empty key they
  end with the generic failure, not with the message about the missing key.
\<close>

theorem generators_call_without_key:
  "getApiKey no_key = []
   \<and> generateQuiz (library_of (rejects_with invalid_key_error)) no_key sample_syntaxError
        ''Photosynthesis'' None ''easy'' 3 0 =
       (Inl (Error ''Failed to generate quiz after trying multiple models. API key not valid. Please pass a valid API key.''),
        4,
        map (\<lambda>m. (Generate [] m (content_parts (quiz_prompt ''Photosynthesis'' None ''easy'' 3) None),
                   Invoked)) MODELS)
   \<and> generateFlashcards (library_of (rejects_with invalid_key_error)) no_key sample_syntaxError
        ''Photosynthesis'' None 3 0 =
       (Inl (Error ''Failed to generate flashcards after trying multiple models. API key not valid. Please pass a valid API key.''),
        4,
        map (\<lambda>m. (Generate [] m (content_parts (flashcards_prompt ''Photosynthesis'' None 3) None),
                   Invoked)) MODELS)"
proof -
  have k: "getApiKey no_key = []"
    by (simp add: getApiKey_def no_key_def)
  have m: "or_string (message invalid_key_error) [] = ''API key not valid. Please pass a valid API key.''"
    by (simp add: invalid_key_error_def)
  have q: "generateQuiz (library_of (rejects_with invalid_key_error)) no_key sample_syntaxError
        ''Photosynthesis'' None ''easy'' 3 0 =
       (Inl (Error ''Failed to generate quiz after trying multiple models. API key not valid. Please pass a valid API key.''),
        4,
        map (\<lambda>m. (Generate [] m (content_parts (quiz_prompt ''Photosynthesis'' None ''easy'' 3) None),
                   Invoked)) MODELS)"
    unfolding generateQuiz_def generate_loop_invalid_key by (simp add: m MODELS_def)
  have f: "generateFlashcards (library_of (rejects_with invalid_key_error)) no_key sample_syntaxError
        ''Photosynthesis'' None 3 0 =
       (Inl (Error ''Failed to generate flashcards after trying multiple models. API key not valid. Please pass a valid API key.''),
        4,
        map (\<lambda>m. (Generate [] m (content_parts (flashcards_prompt ''Photosynthesis'' None 3) None),
                   Invoked)) MODELS)"
    unfolding generateFlashcards_def generate_loop_invalid_key by (simp add: m MODELS_def)
  show ?thesis
    using k q f by simp
qed

section \<open>The error after all candidates failed\<close>

lemma generateQuiz_rejects_with:
  "fst (generateQuiz (library_of (rejects_with e)) cfg syntaxError topic fileData difficulty count n) =
     Inl (Error (''Failed to generate quiz after trying multiple models. ''
                   @ message_or (Thrown e) []))"
proof -
  obtain s' tr where
    "generate_loop (library_of (rejects_with e)) cfg syntaxError
       (content_parts (quiz_prompt topic fileData difficulty count) fileData) MODELS Undefined n
     = (Inl (Thrown e), s', tr)"
    using generate_loop_rejects_with by blast
  then show ?thesis
    by (simp add: generateQuiz_def)
qed

lemma thrown_message_or:
  "thrown_message e = Some m \<Longrightarrow> m \<noteq> [] \<Longrightarrow> message_or e [] = m"
  by (cases e) simp_all

lemma str_includes_nonempty: "str_includes m needle \<Longrightarrow> needle \<noteq> [] \<Longrightarrow> m \<noteq> []"
  by (cases m) simp_all

text \<open>The run on which the service is out of quota for exactly the twelve calls made.\<close>

lemma chat_run_quota_until:
  "failed_run (chat_attempt (library_of (quota_until 12)) cfg history msg fs) MODELS Undefined 0 =
     Some (Thrown quota_error, 12,
           concat (map (\<lambda>m. map (Pair (chat_request cfg m history msg fs))
                               [Invoked, Delayed 1000, Invoked, Delayed 2000, Invoked, Delayed 4000])
                       MODELS))"
  by (simp add: MODELS_def chat_attempt_library_of withRetry_quota_until)

lemma generate_run_quota_until:
  "failed_run (generate_attempt (library_of (quota_until 12)) cfg syntaxError ps) MODELS Undefined 0 =
     Some (Thrown quota_error, 12,
           concat (map (\<lambda>m. map (Pair (Generate (getApiKey cfg) m ps))
                               [Invoked, Delayed 1000, Invoked, Delayed 2000, Invoked, Delayed 4000])
                       MODELS))"
  by (simp add: MODELS_def generate_attempt_library_of withRetry_quota_until)

text \<open>
  C3, as stated, fails for \<open>generateQuiz\<close>: when every call is rejected with a quota
  failure whose message says \<open>quota\<close>, the error thrown at the end is the generic
  prefix followed by that message, and the word \<open>Quota\<close> does not occur in it.
\<close>

theorem quota_message_counterexample:
  "message_includes (Thrown quota_error) ''quota''
   \<and> fst (generateQuiz (library_of (rejects_with quota_error)) with_key sample_syntaxError
             ''Photosynthesis'' None ''easy'' 3 0)
       = Inl (Error ''Failed to generate quiz after trying multiple models. You exceeded your current quota'')
   \<and> \<not> str_includes
         ''Failed to generate quiz after trying multiple models. You exceeded your current quota''
         ''Quota''"
proof -
  have a: "message_includes (Thrown quota_error) ''quota''"
    by (simp add: quota_error_def)
  have b: "fst (generateQuiz (library_of (rejects_with quota_error)) with_key sample_syntaxError
             ''Photosynthesis'' None ''easy'' 3 0)
       = Inl (Error ''Failed to generate quiz after trying multiple models. You exceeded your current quota'')"
    unfolding generateQuiz_rejects_with by (simp add: quota_error_def)
  have c: "\<not> str_includes
         ''Failed to generate quiz after trying multiple models. You exceeded your current quota''
         ''Quota''"
    by simp
  show ?thesis
    using a b c by blast
qed

text \<open>
  C3, amended: take a run in which the attempts of all four candidates fail, and let
  \<open>lastError\<close> be the last failure observed, whichever step threw it. If the message of
  \<open>lastError\<close> contains \<open>quota\<close>, then \<open>sendMessage\<close> (given a key and a client)
  throws the quota message, which contains the word \<open>Quota\<close>, while
  \<open>generateQuiz\<close> and \<open>generateFlashcards\<close> throw their generic prefix followed by
  that very message, which contains \<open>quota\<close> as the service wrote it.
\<close>

theorem quota_exhaustion_messages:
  "(\<forall>lastError s' tr.
      getApiKey cfg \<noteq> [] \<and> new_client lib (getApiKey cfg) = None
      \<and> failed_run (chat_attempt lib cfg history msg fs) MODELS Undefined s = Some (lastError, s', tr)
      \<and> message_includes lastError ''quota''
      \<longrightarrow> sendMessage lib cfg history msg fs s = (Inl (Error ''API Quota Exceeded across all available models. Please check your Google AI Studio billing or wait a few minutes.''), s', tr))
   \<and> str_includes ''API Quota Exceeded across all available models. Please check your Google AI Studio billing or wait a few minutes.'' ''Quota''
   \<and> (\<forall>lastError s' tr m.
      failed_run (generate_attempt lib cfg syntaxError
                    (content_parts (quiz_prompt topic fileData difficulty count) fileData))
        MODELS Undefined s = Some (lastError, s', tr)
      \<and> thrown_message lastError = Some m \<and> str_includes m ''quota''
      \<longrightarrow> generateQuiz lib cfg syntaxError topic fileData difficulty count s =
            (Inl (Error (''Failed to generate quiz after trying multiple models. '' @ m)), s', tr))
   \<and> (\<forall>lastError s' tr m.
      failed_run (generate_attempt lib cfg syntaxError
                    (content_parts (flashcards_prompt topic fileData count) fileData))
        MODELS Undefined s = Some (lastError, s', tr)
      \<and> thrown_message lastError = Some m \<and> str_includes m ''quota''
      \<longrightarrow> generateFlashcards lib cfg syntaxError topic fileData count s =
            (Inl (Error (''Failed to generate flashcards after trying multiple models. '' @ m)), s', tr))"
proof -
  have chat: "sendMessage lib cfg history msg fs s = (Inl (Error ''API Quota Exceeded across all available models. Please check your Google AI Studio billing or wait a few minutes.''), s', tr)"
    if "getApiKey cfg \<noteq> []" and "new_client lib (getApiKey cfg) = None"
      and "failed_run (chat_attempt lib cfg history msg fs) MODELS Undefined s = Some (lastError, s', tr)"
      and "message_includes lastError ''quota''"
    for lastError s' tr
  proof -
    have "sendMessage_loop lib cfg history msg fs MODELS Undefined s = (Inl lastError, s', tr)"
      using that(3) by (simp add: sendMessage_loop_failed_run)
    then show ?thesis
      using that(1,2,4) by (simp add: sendMessage_def sendMessage_failure_def)
  qed
  have word: "str_includes ''API Quota Exceeded across all available models. Please check your Google AI Studio billing or wait a few minutes.'' ''Quota''"
    by simp
  have quiz: "generateQuiz lib cfg syntaxError topic fileData difficulty count s =
            (Inl (Error (''Failed to generate quiz after trying multiple models. '' @ m)), s', tr)"
    if "failed_run (generate_attempt lib cfg syntaxError
                    (content_parts (quiz_prompt topic fileData difficulty count) fileData))
        MODELS Undefined s = Some (lastError, s', tr)"
      and "thrown_message lastError = Some m" and "str_includes m ''quota''"
    for lastError s' tr m
  proof -
    have "generate_loop lib cfg syntaxError
            (content_parts (quiz_prompt topic fileData difficulty count) fileData)
            MODELS Undefined s = (Inl lastError, s', tr)"
      using that(1) by (simp add: generate_loop_failed_run)
    moreover have "m \<noteq> []"
      using that(3) by (rule str_includes_nonempty) simp
    then have "message_or lastError [] = m"
      using that(2) by (intro thrown_message_or)
    ultimately show ?thesis
      by (simp add: generateQuiz_def)
  qed
  have cards: "generateFlashcards lib cfg syntaxError topic fileData count s =
            (Inl (Error (''Failed to generate flashcards after trying multiple models. '' @ m)), s', tr)"
    if "failed_run (generate_attempt lib cfg syntaxError
                    (content_parts (flashcards_prompt topic fileData count) fileData))
        MODELS Undefined s = Some (lastError, s', tr)"
      and "thrown_message lastError = Some m" and "str_includes m ''quota''"
    for lastError s' tr m
  proof -
    have "generate_loop lib cfg syntaxError
            (content_parts (flashcards_prompt topic fileData count) fileData)
            MODELS Undefined s = (Inl lastError, s', tr)"
      using that(1) by (simp add: generate_loop_failed_run)
    moreover have "m \<noteq> []"
      using that(3) by (rule str_includes_nonempty) simp
    then have "message_or lastError [] = m"
      using that(2) by (intro thrown_message_or)
    ultimately show ?thesis
      by (simp add: generateFlashcards_def)
  qed
  from chat word quiz cards show ?thesis
    by blast
qed

theorem quota_exhaustion_messages_witness:
  "quota_until 12 (chat_request with_key ''gemini-flash-latest'' [] ''Hi'' []) 12
     = (Inr (Inr ''Hello!''), 13)
   \<and> sendMessage (library_of (quota_until 12)) with_key [] ''Hi'' [] 0 =
       (Inl (Error ''API Quota Exceeded across all available models. Please check your Google AI Studio billing or wait a few minutes.''), 12,
        concat (map (\<lambda>m. map (Pair (chat_request with_key m [] ''Hi'' []))
                            [Invoked, Delayed 1000, Invoked, Delayed 2000, Invoked, Delayed 4000])
                    MODELS))
   \<and> fst (generateQuiz (library_of (quota_until 12)) with_key sample_syntaxError
             ''Photosynthesis'' None ''easy'' 3 0) =
       Inl (Error ''Failed to generate quiz after trying multiple models. You exceeded your current quota'')
   \<and> fst (generateFlashcards (library_of (quota_until 12)) with_key sample_syntaxError
             ''Photosynthesis'' None 3 0) =
       Inl (Error ''Failed to generate flashcards after trying multiple models. You exceeded your current quota'')"
proof -
  note inst = quota_exhaustion_messages [of with_key "library_of (quota_until 12)" "[]" "''Hi''" "[]" 0
      sample_syntaxError "''Photosynthesis''" None "''easy''" 3]
  have later: "quota_until 12 (chat_request with_key ''gemini-flash-latest'' [] ''Hi'' []) 12
     = (Inr (Inr ''Hello!''), 13)"
    by (simp add: quota_until_def replies_with_def)
  have q: "message_includes (Thrown quota_error) ''quota''"
    by (simp add: quota_error_def)
  have m: "thrown_message (Thrown quota_error) = Some ''You exceeded your current quota''
           \<and> str_includes ''You exceeded your current quota'' ''quota''"
    by (simp add: quota_error_def)
  have a: "sendMessage (library_of (quota_until 12)) with_key [] ''Hi'' [] 0 =
       (Inl (Error ''API Quota Exceeded across all available models. Please check your Google AI Studio billing or wait a few minutes.''), 12,
        concat (map (\<lambda>m. map (Pair (chat_request with_key m [] ''Hi'' []))
                            [Invoked, Delayed 1000, Invoked, Delayed 2000, Invoked, Delayed 4000])
                    MODELS))"
    using inst [THEN conjunct1] with_key_present library_of_client chat_run_quota_until q
    by blast
  have b: "generateQuiz (library_of (quota_until 12)) with_key sample_syntaxError
             ''Photosynthesis'' None ''easy'' 3 0 =
       (Inl (Error (''Failed to generate quiz after trying multiple models. ''
                      @ ''You exceeded your current quota'')), 12,
        concat (map (\<lambda>m. map (Pair (Generate (getApiKey with_key) m
                     (content_parts (quiz_prompt ''Photosynthesis'' None ''easy'' 3) None)))
                            [Invoked, Delayed 1000, Invoked, Delayed 2000, Invoked, Delayed 4000])
                    MODELS))"
    using inst [THEN conjunct2, THEN conjunct2, THEN conjunct1] generate_run_quota_until m
    by blast
  have c: "generateFlashcards (library_of (quota_until 12)) with_key sample_syntaxError
             ''Photosynthesis'' None 3 0 =
       (Inl (Error (''Failed to generate flashcards after trying multiple models. ''
                      @ ''You exceeded your current quota'')), 12,
        concat (map (\<lambda>m. map (Pair (Generate (getApiKey with_key) m
                     (content_parts (flashcards_prompt ''Photosynthesis'' None 3) None)))
                            [Invoked, Delayed 1000, Invoked, Delayed 2000, Invoked, Delayed 4000])
                    MODELS))"
    using inst [THEN conjunct2, THEN conjunct2, THEN conjunct2] generate_run_quota_until m
    by blast
  show ?thesis
    unfolding a b c using later by simp
qed

text \<open>
  C7, as stated, fails twice. A last failure that is 404-class only because its message
  contains \<open>404\<close> gets the generic message; and a last failure with status 404 whose
  message also contains \<open>quota\<close> gets the quota message, which is tested first.
\<close>

theorem not_found_message_counterexample:
  "message_includes (Thrown code_404_error) ''404''
   \<and> fst (sendMessage (library_of (rejects_with code_404_error)) with_key [] ''Hi'' [] 0)
       = Inl (Error ''Failed to get AI response after trying multiple models. Request failed with code 404'')
   \<and> own_status (Thrown quota_not_found_error) = Some 404
   \<and> fst (sendMessage (library_of (rejects_with quota_not_found_error)) with_key [] ''Hi'' [] 0)
       = Inl (Error ''API Quota Exceeded across all available models. Please check your Google AI Studio billing or wait a few minutes.'')"
proof -
  have a: "message_includes (Thrown code_404_error) ''404''"
    by (simp add: code_404_error_def)
  have b: "fst (sendMessage (library_of (rejects_with code_404_error)) with_key [] ''Hi'' [] 0)
       = Inl (Error ''Failed to get AI response after trying multiple models. Request failed with code 404'')"
    unfolding sendMessage_rejects_with [OF with_key_present]
    by (simp add: sendMessage_failure_def code_404_error_def)
  have c: "own_status (Thrown quota_not_found_error) = Some 404"
    by (simp add: quota_not_found_error_def)
  have d: "fst (sendMessage (library_of (rejects_with quota_not_found_error)) with_key [] ''Hi'' [] 0)
       = Inl (Error ''API Quota Exceeded across all available models. Please check your Google AI Studio billing or wait a few minutes.'')"
    unfolding sendMessage_rejects_with [OF with_key_present]
    by (simp add: sendMessage_failure_def quota_not_found_error_def)
  show ?thesis
    using a b c d by blast
qed

text \<open>
  C7, amended: take a run of \<open>sendMessage\<close>, with a key and a client, in which the
  attempts of all four candidates fail, and let \<open>lastError\<close> be the last failure
  observed. If \<open>lastError\<close> has status 404 or a message containing \<open>not found\<close>, and
  no \<open>quota\<close> in its message, then the error thrown asks the user to verify the key in
  Google AI Studio.
\<close>

theorem not_found_exhaustion_message:
  assumes "getApiKey cfg \<noteq> []"
    and "new_client lib (getApiKey cfg) = None"
    and "failed_run (chat_attempt lib cfg history msg fs) MODELS Undefined s = Some (lastError, s', tr)"
    and "own_status lastError = Some 404 \<or> message_includes lastError ''not found''"
    and "\<not> message_includes lastError ''quota''"
  shows "sendMessage lib cfg history msg fs s = (Inl (Error ''Gemini models not found for this API key. Please verify your key in Google AI Studio.''), s', tr)"
proof -
  have "sendMessage_loop lib cfg history msg fs MODELS Undefined s = (Inl lastError, s', tr)"
    using assms(3) by (simp add: sendMessage_loop_failed_run)
  then show ?thesis
    using assms(1,2,4,5) by (simp add: sendMessage_def sendMessage_failure_def)
qed

theorem not_found_exhaustion_message_witness:
  "sendMessage (library_of (rejects_with not_found_error)) with_key [] ''Hi'' [] 0 =
     (Inl (Error ''Gemini models not found for this API key. Please verify your key in Google AI Studio.''), 4,
      map (\<lambda>m. (chat_request with_key m [] ''Hi'' [], Invoked)) MODELS)"
proof -
  have fatal: "\<not> retryable (Thrown not_found_error)"
    by (simp add: retryable_def not_found_error_def)
  have run: "failed_run (chat_attempt (library_of (rejects_with not_found_error)) with_key [] ''Hi'' [])
               MODELS Undefined 0 =
             Some (Thrown not_found_error, 4,
                   map (\<lambda>m. (chat_request with_key m [] ''Hi'' [], Invoked)) MODELS)"
    by (simp add: MODELS_def chat_attempt_library_of withRetry_rejects_with_fatal [OF fatal])
  have cls: "own_status (Thrown not_found_error) = Some 404
             \<or> message_includes (Thrown not_found_error) ''not found''"
    by (simp add: not_found_error_def)
  have noq: "\<not> message_includes (Thrown not_found_error) ''quota''"
    by (simp add: not_found_error_def)
  show ?thesis
    by (rule not_found_exhaustion_message [OF with_key_present library_of_client run cls noq])
qed

section \<open>Properties of the response parsing\<close>






text \<open>The example of a fenced response, and the same response without the fence.\<close>

lemma parse_response_fenced_example:
  \<open>parse_response ''```json\<newline>{"questions":[]}\<newline>```'' =
     Some (JObject [(code_units ''questions'', JArray [])])
   \<and> parse_response ''{"questions":[]}'' =
     Some (JObject [(code_units ''questions'', JArray [])])\<close>
  by (simp add: parse_response_def trim_def is_js_space_def JSON_parse_def
        skip_ws_def is_json_ws_def add_members_def code_units_def)


lemma startsWith_shorter: "startsWith s (p @ q) \<Longrightarrow> startsWith s p"
  by (induction s p rule: startsWith.induct) auto

lemma replace_fences_one:
  "startsWith (replace_fences s) ''`'' \<Longrightarrow> startsWith s ''`''"
  by (cases s) (auto split: if_splits)

lemma replace_fences_two:
  assumes "startsWith (replace_fences s) ''``''"
  shows "startsWith s ''``''"
proof (cases s)
  case Nil
  with assms show ?thesis by simp
next
  case (Cons c cs)
  show ?thesis
  proof (cases "startsWith (c # cs) ''```''")
    case True
    then have "startsWith (c # cs) (''``'' @ ''`'')"
      by simp
    then have "startsWith (c # cs) ''``''"
      by (rule startsWith_shorter)
    then show ?thesis using Cons by simp
  next
    case False
    have "\<not> startsWith (c # cs) (''```'' @ ''json'')"
      using False startsWith_shorter by blast
    then have "\<not> startsWith (c # cs) ''```json''"
      by simp
    with False have r: "replace_fences s = c # replace_fences cs"
      using Cons by (simp del: startsWith.simps)
    from assms have "c = CHR 0x60" and "startsWith (replace_fences cs) ''`''"
      unfolding r by simp_all
    with replace_fences_one show ?thesis
      using Cons by simp
  qed
qed

lemma replace_fences_no_fence_start: "\<not> startsWith (replace_fences s) ''```''"
proof (induction s rule: replace_fences.induct)
  case 1
  show ?case by simp
next
  case (2 c cs)
  show ?case
  proof (cases "startsWith (c # cs) ''```json''")
    case True
    then have "replace_fences (c # cs) = replace_fences (drop 6 cs)"
      by (simp del: startsWith.simps)
    with "2.IH"(1) [OF True] show ?thesis by simp
  next
    case False
    note nolong = False
    show ?thesis
    proof (cases "startsWith (c # cs) ''```''")
      case True
      then have "replace_fences (c # cs) = replace_fences (drop 2 cs)"
        using nolong by (simp del: startsWith.simps)
      with "2.IH"(2) [OF nolong True] show ?thesis by simp
    next
      case False
      then have r: "replace_fences (c # cs) = c # replace_fences cs"
        using nolong by (simp del: startsWith.simps)
      show ?thesis
      proof
        assume "startsWith (replace_fences (c # cs)) ''```''"
        then have "c = CHR 0x60" and "startsWith (replace_fences cs) ''``''"
          unfolding r by simp_all
        then have "startsWith (c # cs) ''```''"
          using replace_fences_two [of cs] by simp
        with False show False by contradiction
      qed
    qed
  qed
qed

lemma replace_fences_no_fence: "\<not> str_includes (replace_fences s) ''```''"
proof (induction s rule: replace_fences.induct)
  case 1
  show ?case by simp
next
  case (2 c cs)
  show ?case
  proof (cases "startsWith (c # cs) ''```json''")
    case True
    then have "replace_fences (c # cs) = replace_fences (drop 6 cs)"
      by (simp del: startsWith.simps)
    with "2.IH"(1) [OF True] show ?thesis by simp
  next
    case False
    note nolong = False
    show ?thesis
    proof (cases "startsWith (c # cs) ''```''")
      case True
      then have "replace_fences (c # cs) = replace_fences (drop 2 cs)"
        using nolong by (simp del: startsWith.simps)
      with "2.IH"(2) [OF nolong True] show ?thesis by simp
    next
      case False
      then have r: "replace_fences (c # cs) = c # replace_fences cs"
        using nolong by (simp del: startsWith.simps)
      have "\<not> startsWith (c # replace_fences cs) ''```''"
        using replace_fences_no_fence_start [of "c # cs"] unfolding r .
      moreover have "\<not> str_includes (replace_fences cs) ''```''"
        using nolong False by (rule "2.IH"(3))
      ultimately show ?thesis
        unfolding r by (simp del: startsWith.simps)
    qed
  qed
qed


lemma JSON_parse_cards_with_fences:
  "JSON_parse cards_with_fences =
     Some (JObject [(code_units ''flashcards'',
             JArray [JObject [(code_units ''front'', JString (code_units ''```'')),
                              (code_units ''back'', JString (code_units ''opens a code block''))]])])"
  by (simp add: cards_with_fences_def JSON_parse_def skip_ws_def is_json_ws_def
        add_members_def escape_char_def code_units_def)

lemma parse_response_cards_with_fences:
  "parse_response cards_with_fences =
     Some (JObject [(code_units ''flashcards'',
             JArray [JObject [(code_units ''front'', JString []),
                              (code_units ''back'', JString (code_units ''opens a code block''))]])])"
  by (simp add: parse_response_def trim_def is_js_space_def cards_with_fences_def JSON_parse_def
        skip_ws_def is_json_ws_def add_members_def escape_char_def code_units_def)

lemma JSON_parse_quiz_with_fences:
  "JSON_parse quiz_with_fences =
     Some (JObject [(code_units ''questions'',
             JArray [JObject [(code_units ''question'',
                                 JString (code_units ''Which characters open a code block?'')),
                              (code_units ''options'',
                                 JArray [JString (code_units ''```''), JString (code_units ''---'')]),
                              (code_units ''answer'', JString (code_units ''```''))]])])"
  by (simp add: quiz_with_fences_def JSON_parse_def skip_ws_def is_json_ws_def
        add_members_def escape_char_def code_units_def)

lemma parse_response_quiz_with_fences:
  "parse_response quiz_with_fences =
     Some (JObject [(code_units ''questions'',
             JArray [JObject [(code_units ''question'',
                                 JString (code_units ''Which characters open a code block?'')),
                              (code_units ''options'',
                                 JArray [JString [], JString (code_units ''---'')]),
                              (code_units ''answer'', JString [])]])])"
  by (simp add: parse_response_def trim_def is_js_space_def quiz_with_fences_def JSON_parse_def
        skip_ws_def is_json_ws_def add_members_def escape_char_def code_units_def)

text \<open>
  C10: the replacement deletes fences wherever they occur, not only around the response:
  after it no \<open>```\<close> is left anywhere in the text. So for a well-formed response whose
  string content contains \<open>```\<close>, the value \<open>generateQuiz\<close> or
  \<open>generateFlashcards\<close> returns is not the value \<open>JSON.parse\<close> gives for the raw
  response text: the backticks are gone from the strings.
\<close>

theorem fences_removed_everywhere:
  "\<not> str_includes (replace_fences s) ''```''
   \<and> JSON_parse quiz_with_fences =
       Some (JObject [(code_units ''questions'',
             JArray [JObject [(code_units ''question'',
                                 JString (code_units ''Which characters open a code block?'')),
                              (code_units ''options'',
                                 JArray [JString (code_units ''```''), JString (code_units ''---'')]),
                              (code_units ''answer'', JString (code_units ''```''))]])])
   \<and> fst (generateQuiz (library_of (replies_with quiz_with_fences)) with_key sample_syntaxError
             ''Markdown'' None ''easy'' 1 0) =
       Inr (JObject [(code_units ''questions'',
             JArray [JObject [(code_units ''question'',
                                 JString (code_units ''Which characters open a code block?'')),
                              (code_units ''options'',
                                 JArray [JString [], JString (code_units ''---'')]),
                              (code_units ''answer'', JString [])]])])
   \<and> fst (generateQuiz (library_of (replies_with quiz_with_fences)) with_key sample_syntaxError
             ''Markdown'' None ''easy'' 1 0) \<noteq> Inr (the (JSON_parse quiz_with_fences))
   \<and> JSON_parse cards_with_fences =
       Some (JObject [(code_units ''flashcards'',
             JArray [JObject [(code_units ''front'', JString (code_units ''```'')),
                              (code_units ''back'', JString (code_units ''opens a code block''))]])])
   \<and> fst (generateFlashcards (library_of (replies_with cards_with_fences)) with_key sample_syntaxError
             ''Markdown'' None 1 0) =
       Inr (JObject [(code_units ''flashcards'',
             JArray [JObject [(code_units ''front'', JString []),
                              (code_units ''back'', JString (code_units ''opens a code block''))]])])
   \<and> fst (generateFlashcards (library_of (replies_with cards_with_fences)) with_key sample_syntaxError
             ''Markdown'' None 1 0) \<noteq> Inr (the (JSON_parse cards_with_fences))"
proof -
  have q: "fst (generateQuiz (library_of (replies_with quiz_with_fences)) with_key sample_syntaxError
             ''Markdown'' None ''easy'' 1 0) = Inr (the (parse_response quiz_with_fences))"
    by (simp add: generateQuiz_def MODELS_def generate_attempt_library_of withRetry_replies_with
          parse_response_quiz_with_fences)
  have c: "fst (generateFlashcards (library_of (replies_with cards_with_fences)) with_key sample_syntaxError
             ''Markdown'' None 1 0) = Inr (the (parse_response cards_with_fences))"
    by (simp add: generateFlashcards_def MODELS_def generate_attempt_library_of
          withRetry_replies_with parse_response_cards_with_fences)
  have dq: "the (parse_response quiz_with_fences) \<noteq> the (JSON_parse quiz_with_fences)"
    unfolding parse_response_quiz_with_fences JSON_parse_quiz_with_fences
    by (simp add: code_units_def)
  have dc: "the (parse_response cards_with_fences) \<noteq> the (JSON_parse cards_with_fences)"
    unfolding parse_response_cards_with_fences JSON_parse_cards_with_fences
    by (simp add: code_units_def)
  show ?thesis
    unfolding q c
    using replace_fences_no_fence [of s] dq dc
    by (simp add: parse_response_quiz_with_fences parse_response_cards_with_fences
          JSON_parse_quiz_with_fences JSON_parse_cards_with_fences)
qed

end
